theory Spec2Isabelle
  imports Main
begin

section \<open>Python values shared by the agents\<close>

text \<open>
  A Python \<open>str\<close> is modelled as a \<open>string\<close>, one \<open>char\<close> per character; the
  model covers texts whose characters have code points below 256.
\<close>

definition nl :: char where
  "nl = CHR 0x0A"

text \<open>\<open>"\\n".join(lines)\<close>\<close>

fun join_nl :: "string list \<Rightarrow> string" where
  "join_nl [] = []"
| "join_nl [l] = l"
| "join_nl (l # m # ls) = l @ nl # join_nl (m # ls)"

text \<open>\<open>str(n)\<close> for an \<open>int\<close>: decimal digits, with a minus sign when negative.\<close>

definition digit :: "nat \<Rightarrow> char" where
  "digit d = ''0123456789'' ! d"

function show_nat :: "nat \<Rightarrow> string" where
  "show_nat n = (if n < 10 then [digit n] else show_nat (n div 10) @ [digit (n mod 10)])"
  by pat_completeness auto
termination
  by (relation "measure id") auto

declare show_nat.simps [simp del]

definition show_int :: "int \<Rightarrow> string" where
  "show_int i = (if i < 0 then CHR ''-'' # show_nat (nat (- i)) else show_nat (nat i))"

text \<open>
  \<open>str.isspace\<close> on the characters below 256: tab to carriage return, the four
  separators 0x1C to 0x1F, space, NEL (0x85) and the no-break space (0xA0).
\<close>

definition py_isspace :: "char \<Rightarrow> bool" where
  "py_isspace c = ((of_char c :: nat) \<in> {9, 10, 11, 12, 13, 28, 29, 30, 31, 32, 133, 160})"

text \<open>\<open>s.strip()\<close>\<close>

definition strip :: "string \<Rightarrow> string" where
  "strip s = rev (dropWhile py_isspace (rev (dropWhile py_isspace s)))"

text \<open>
  The exceptions the core can raise: \<open>HTTPException(status_code, detail)\<close>; the errors of
  Python's built-ins; \<open>CompletionError msg\<close> for any exception raised inside
  \<open>generate_completion\<close> (a \<open>RuntimeError\<close> in the source, or a transport error), carrying
  \<open>str(e)\<close>; and \<open>StoreError msg\<close> for any exception the database session raises, carrying
  \<open>str(e)\<close>.
\<close>

datatype exn =
    HTTPException nat string
  | CompletionError string
  | StoreError string
  | ValueError
  | TypeError
  | AttributeError
  | KeyError
  | OverflowError

section \<open>Reporter (agents/reporter.py)\<close>

text \<open>
  The values a task snapshot can hold: \<open>None\<close>, an \<open>int\<close> or a \<open>str\<close>. A snapshot is a
  \<open>dict\<close>, modelled as an association list.
\<close>

datatype pyval = PNone | PInt int | PStr string

type_synonym snapshot = "(string \<times> pyval) list"

text \<open>Python truthiness: \<open>None\<close>, \<open>0\<close> and \<open>""\<close> are falsy.\<close>

fun truthy :: "pyval \<Rightarrow> bool" where
  "truthy PNone = False"
| "truthy (PInt n) = (n \<noteq> 0)"
| "truthy (PStr s) = (s \<noteq> [])"

text \<open>\<open>a or b\<close>\<close>

definition py_or :: "pyval \<Rightarrow> pyval \<Rightarrow> pyval" where
  "py_or a b = (if truthy a then a else b)"

text \<open>\<open>t.get(key, default)\<close>; the default is \<open>None\<close> when omitted.\<close>

definition dict_get :: "snapshot \<Rightarrow> string \<Rightarrow> pyval \<Rightarrow> pyval" where
  "dict_get t k d = (case map_of t k of None \<Rightarrow> d | Some v \<Rightarrow> v)"

text \<open>A value interpolated in an f-string: \<open>str(v)\<close>.\<close>

fun format_val :: "pyval \<Rightarrow> string" where
  "format_val PNone = ''None''"
| "format_val (PInt n) = show_int n"
| "format_val (PStr s) = s"

text \<open>\<open>v.strip()\<close>: only a \<open>str\<close> has the method.\<close>

fun val_strip :: "pyval \<Rightarrow> exn + string" where
  "val_strip (PStr s) = Inr (strip s)"
| "val_strip _ = Inl AttributeError"

definition header :: "string \<Rightarrow> string list" where
  "header project_title =
     [''Summary for project: '' @ project_title, '''', ''This run executed the following steps:'']"

definition closing :: "string list" where
  "closing =
     ['''',
      ''Overall, the project has been broken down into clear steps and '' @
      ''each step has been processed. This summary can be used as a high-level '' @
      ''report of what the orchestrator completed.'']"

definition no_output :: string where
  "no_output = ''- Result: (no output recorded)''"

text \<open>The body of the loop: the lines appended for one task.\<close>

definition step_block :: "snapshot \<Rightarrow> exn + string list" where
  "step_block t =
     (let idx = dict_get t ''order_index'' (PStr ''?'');
          agent_type = py_or (dict_get t ''agent_type'' PNone) (PStr ''executor'')
      in case val_strip (py_or (dict_get t ''input'' PNone) (PStr '''')) of
           Inl e \<Rightarrow> Inl e
         | Inr input_text \<Rightarrow>
            (case val_strip (py_or (dict_get t ''output'' PNone) (PStr '''')) of
               Inl e \<Rightarrow> Inl e
             | Inr output_text \<Rightarrow>
                Inr (['''', ''Step '' @ format_val idx @ '' ('' @ format_val agent_type @ ''):'']
                     @ (if input_text \<noteq> [] then [''- Instruction: '' @ input_text] else [])
                     @ (if output_text \<noteq> [] then [''- Result: '' @ output_text]
                        else [no_output]))))"

fun step_blocks :: "snapshot list \<Rightarrow> exn + string list" where
  "step_blocks [] = Inr []"
| "step_blocks (t # ts) =
     (case step_block t of
        Inl e \<Rightarrow> Inl e
      | Inr ls \<Rightarrow> (case step_blocks ts of Inl e \<Rightarrow> Inl e | Inr rest \<Rightarrow> Inr (ls @ rest)))"

definition ReporterAgent_run :: "string \<Rightarrow> snapshot list \<Rightarrow> exn + string" where
  "ReporterAgent_run project_title tasks =
     (case step_blocks tasks of
        Inl e \<Rightarrow> Inl e
      | Inr blocks \<Rightarrow> Inr (join_nl (header project_title @ blocks @ closing)))"

text \<open>
  A well-formed snapshot holds a \<open>str\<close> or \<open>None\<close> under \<open>input\<close> and \<open>output\<close> (the
  columns of a Task are text or NULL); a missing key reads as \<open>None\<close>.
\<close>

fun is_text :: "pyval \<Rightarrow> bool" where
  "is_text (PInt n) = False"
| "is_text _ = True"

definition wf_snapshot :: "snapshot \<Rightarrow> bool" where
  "wf_snapshot t = (is_text (dict_get t ''input'' PNone) \<and> is_text (dict_get t ''output'' PNone))"

text \<open>The output of a snapshot is empty: \<open>None\<close>, missing, or blank.\<close>

definition output_empty :: "snapshot \<Rightarrow> bool" where
  "output_empty t =
     (case dict_get t ''output'' PNone of PStr s \<Rightarrow> strip s = [] | PNone \<Rightarrow> True | PInt n \<Rightarrow> False)"

text \<open>The text of a snapshot under a key, stripped; empty for \<open>None\<close> or a missing key.\<close>

definition stripped :: "snapshot \<Rightarrow> string \<Rightarrow> string" where
  "stripped t k = (case dict_get t k PNone of PStr s \<Rightarrow> strip s | _ \<Rightarrow> [])"

section \<open>JSON values and the built-ins applied to them\<close>

text \<open>
  What \<open>json.loads\<close> returns: \<open>None\<close>, a \<open>bool\<close>, an \<open>int\<close>, a \<open>float\<close>, a \<open>str\<close>, a
  \<open>list\<close>, or a \<open>dict\<close> (an association list; the first entry of a key is its
  value). Floats are opaque: nothing in the core computes with them.
\<close>

typedecl pyfloat

datatype json =
    JNull
  | JBool bool
  | JInt int
  | JFloat pyfloat
  | JStr string
  | JArr "json list"
  | JObj "(string \<times> json) list"

section \<open>The persistent store (models/project.py)\<close>

text \<open>
  The columns the core reads or writes. \<open>order_index\<close> is an integer: the Planner
  always stores one. A row here holds any integer; whether the database takes it is
  the store's verdict at the commit (\<open>store_error\<close> below).
\<close>

record project =
  p_id :: nat
  p_title :: string
  p_description :: "string option"
  p_owner_id :: nat
  p_is_locked :: bool

record run =
  r_id :: nat
  r_project_id :: nat
  r_status :: string
  r_final_summary :: "string option"
  r_is_archived :: bool
  r_is_locked :: bool

record task =
  t_id :: nat
  t_run_id :: nat
  t_agent_type :: string
  t_status :: string
  t_input :: "string option"
  t_output :: "string option"
  t_order_index :: int

record log =
  l_run_id :: nat
  l_agent_type :: string
  l_level :: string
  l_message :: string

record db =
  db_projects :: "project list"
  db_runs :: "run list"
  db_tasks :: "task list"
  db_logs :: "log list"

section \<open>The collaborators, and the built-ins applied to JSON values\<close>

text \<open>
  The calls that reach the database and can raise: each \<open>commit\<close> and \<open>rollback\<close> of
  the source, named by where it stands.
\<close>

datatype store_call =
    ExecRunning      \<comment> \<open>executor.py 24: commit of status running\<close>
  | ExecOutput       \<comment> \<open>executor.py 48: commit of output and status done\<close>
  | ExecCost         \<comment> \<open>executor.py 57: commit of the cost Log\<close>
  | ExecRollback     \<comment> \<open>executor.py 63: rollback in the except block\<close>
  | ExecPending      \<comment> \<open>executor.py 65: commit of status pending\<close>
  | ExecErrorLog     \<comment> \<open>executor.py 73: commit of the error Log\<close>
  | PlanCommit       \<comment> \<open>planner.py 77\<close>
  | CreateLock       \<comment> \<open>runs.py 76\<close>
  | CreateArchive    \<comment> \<open>runs.py 81\<close>
  | CreateRun        \<comment> \<open>runs.py 87\<close>
  | CreateUnlock     \<comment> \<open>runs.py 96\<close>
  | ExecuteLock      \<comment> \<open>runs.py 247\<close>
  | ExecuteRunning   \<comment> \<open>runs.py 260\<close>
  | ExecuteCompleted \<comment> \<open>runs.py 266\<close>
  | ExecuteUnlock    \<comment> \<open>runs.py 273\<close>
  | SummarizeCommit  \<comment> \<open>runs.py 320\<close>

text \<open>\<open>int(f)\<close> of a float: its integer part, or \<open>ValueError\<close> (NaN), or \<open>OverflowError\<close> (infinity).\<close>

datatype float_int = Truncated int | NotANumber | Infinite

text \<open>
  The collaborators of the core. \<open>completion\<close> is \<open>generate_completion\<close>
  (core/llm\_client.py): an HTTP call, so its answer is a function of how many calls
  came before and of the prompt; it raises (\<open>Inl\<close>, with \<open>str(e)\<close>) or returns the
  text and the usage dict. \<open>sanitize\<close> is core/prompt\_guard.py, which returns a
  string for every text and for \<open>None\<close>. \<open>store_error\<close> is the database's verdict on a
  commit or rollback: \<open>None\<close> when it succeeds, the message of the exception when
  it raises; it is a function of how many such calls came before (a connection can be
  lost), of the call, and of the rows the session holds (a row can be rejected: an
  \<open>order_index\<close> outside the range of the Integer column, say). The rest are
  Python's own: \<open>json.loads\<close> (\<open>None\<close> when it raises), \<open>str\<close> of a float, list or
  dict, \<open>int\<close> of a \<open>str\<close> (\<open>None\<close> for the \<open>ValueError\<close>) and \<open>int\<close> of a \<open>float\<close>.
\<close>

record ports =
  completion :: "nat \<Rightarrow> string \<Rightarrow> string + string \<times> (string \<times> json) list"
  sanitize :: "string option \<Rightarrow> string"
  store_error :: "nat \<Rightarrow> store_call \<Rightarrow> db \<Rightarrow> string option"
  json_loads :: "string \<Rightarrow> json option"
  json_str :: "json \<Rightarrow> string"
  int_of_str :: "string \<Rightarrow> int option"
  int_of_float :: "pyfloat \<Rightarrow> float_int"

text \<open>\<open>str(v)\<close>\<close>

definition py_str :: "ports \<Rightarrow> json \<Rightarrow> string" where
  "py_str P v =
     (case v of
        JStr s \<Rightarrow> s
      | JInt n \<Rightarrow> show_int n
      | JNull \<Rightarrow> ''None''
      | JBool b \<Rightarrow> (if b then ''True'' else ''False'')
      | _ \<Rightarrow> json_str P v)"

text \<open>\<open>int(v)\<close>\<close>

definition py_int :: "ports \<Rightarrow> json \<Rightarrow> exn + int" where
  "py_int P v =
     (case v of
        JInt n \<Rightarrow> Inr n
      | JBool b \<Rightarrow> Inr (if b then 1 else 0)
      | JStr s \<Rightarrow> (case int_of_str P s of None \<Rightarrow> Inl ValueError | Some n \<Rightarrow> Inr n)
      | JFloat f \<Rightarrow>
          (case int_of_float P f of
             Truncated n \<Rightarrow> Inr n
           | NotANumber \<Rightarrow> Inl ValueError
           | Infinite \<Rightarrow> Inl OverflowError)
      | _ \<Rightarrow> Inl TypeError)"

text \<open>\<open>needle in haystack\<close> on two strings.\<close>

fun is_substring :: "string \<Rightarrow> string \<Rightarrow> bool" where
  "is_substring needle [] = (needle = [])"
| "is_substring needle (c # cs) =
     (take (length needle) (c # cs) = needle \<or> is_substring needle cs)"

fun is_str :: "string \<Rightarrow> json \<Rightarrow> bool" where
  "is_str k (JStr s) = (s = k)"
| "is_str k _ = False"

text \<open>
  \<open>key in t\<close>: a key of a dict, an element of a list, a substring of a string; the
  other values are not iterable.
\<close>

definition py_in :: "string \<Rightarrow> json \<Rightarrow> exn + bool" where
  "py_in k t =
     (case t of
        JObj kvs \<Rightarrow> Inr (map_of kvs k \<noteq> None)
      | JArr xs \<Rightarrow> Inr (list_ex (is_str k) xs)
      | JStr s \<Rightarrow> Inr (is_substring k s)
      | _ \<Rightarrow> Inl TypeError)"

text \<open>\<open>t[key]\<close> with a string key: only a dict takes one.\<close>

definition subscript :: "json \<Rightarrow> string \<Rightarrow> exn + json" where
  "subscript t k =
     (case t of
        JObj kvs \<Rightarrow> (case map_of kvs k of None \<Rightarrow> Inl KeyError | Some v \<Rightarrow> Inr v)
      | _ \<Rightarrow> Inl TypeError)"

text \<open>\<open>data.get(key)\<close>: only a dict has the method.\<close>

definition json_get :: "json \<Rightarrow> string \<Rightarrow> exn + json" where
  "json_get data k =
     (case data of
        JObj kvs \<Rightarrow> Inr (case map_of kvs k of None \<Rightarrow> JNull | Some v \<Rightarrow> v)
      | _ \<Rightarrow> Inl AttributeError)"

text \<open>
  A session: the rows as committed, the rows as the session sees them (with its
  uncommitted changes), and the next primary key. An object of the ORM is its row in
  \<open>working\<close>, found by primary key. Three fields only record what happened:
  \<open>history\<close> holds every state of the rows that a commit made durable, oldest first;
  \<open>prompts\<close> the prompts sent to the completion service; \<open>store_ops\<close> counts the
  commits and rollbacks attempted.
\<close>

record state =
  committed :: db
  working :: db
  next_id :: nat
  history :: "db list"
  prompts :: "string list"
  store_ops :: nat

text \<open>
  \<open>db.commit()\<close>: it makes the session's rows durable, or raises and leaves the
  committed rows as they were (the session keeps its changes until a rollback).
\<close>

definition commit :: "ports \<Rightarrow> store_call \<Rightarrow> state \<Rightarrow> (exn + unit) \<times> state" where
  "commit P call s =
     (case store_error P (store_ops s) call (working s) of
        Some msg \<Rightarrow> (Inl (StoreError msg), s\<lparr>store_ops := Suc (store_ops s)\<rparr>)
      | None \<Rightarrow>
          (Inr (),
           s\<lparr>committed := working s, history := history s @ [working s],
             store_ops := Suc (store_ops s)\<rparr>))"

text \<open>\<open>db.rollback()\<close>: the session drops its uncommitted changes, or the call raises.\<close>

definition rollback :: "ports \<Rightarrow> store_call \<Rightarrow> state \<Rightarrow> (exn + unit) \<times> state" where
  "rollback P call s =
     (case store_error P (store_ops s) call (working s) of
        Some msg \<Rightarrow> (Inl (StoreError msg), s\<lparr>store_ops := Suc (store_ops s)\<rparr>)
      | None \<Rightarrow> (Inr (), s\<lparr>working := committed s, store_ops := Suc (store_ops s)\<rparr>))"

text \<open>Writes to the rows of a table: an attribute set on the object of primary key \<open>i\<close>, a row added.\<close>

definition db_update_task :: "nat \<Rightarrow> (task \<Rightarrow> task) \<Rightarrow> db \<Rightarrow> db" where
  "db_update_task i f d = d\<lparr>db_tasks := map (\<lambda>t. if t_id t = i then f t else t) (db_tasks d)\<rparr>"

definition db_update_run :: "nat \<Rightarrow> (run \<Rightarrow> run) \<Rightarrow> db \<Rightarrow> db" where
  "db_update_run i f d = d\<lparr>db_runs := map (\<lambda>r. if r_id r = i then f r else r) (db_runs d)\<rparr>"

definition db_update_project :: "nat \<Rightarrow> (project \<Rightarrow> project) \<Rightarrow> db \<Rightarrow> db" where
  "db_update_project i f d =
     d\<lparr>db_projects := map (\<lambda>p. if p_id p = i then f p else p) (db_projects d)\<rparr>"

definition db_add_log :: "log \<Rightarrow> db \<Rightarrow> db" where
  "db_add_log l d = d\<lparr>db_logs := db_logs d @ [l]\<rparr>"

definition db_add_task :: "task \<Rightarrow> db \<Rightarrow> db" where
  "db_add_task t d = d\<lparr>db_tasks := db_tasks d @ [t]\<rparr>"

definition db_add_run :: "run \<Rightarrow> db \<Rightarrow> db" where
  "db_add_run r d = d\<lparr>db_runs := db_runs d @ [r]\<rparr>"

text \<open>The same through a session: the change is in \<open>working\<close> until the next commit.\<close>

definition update_task :: "nat \<Rightarrow> (task \<Rightarrow> task) \<Rightarrow> state \<Rightarrow> state" where
  "update_task i f s = s\<lparr>working := db_update_task i f (working s)\<rparr>"

definition update_run :: "nat \<Rightarrow> (run \<Rightarrow> run) \<Rightarrow> state \<Rightarrow> state" where
  "update_run i f s = s\<lparr>working := db_update_run i f (working s)\<rparr>"

definition update_project :: "nat \<Rightarrow> (project \<Rightarrow> project) \<Rightarrow> state \<Rightarrow> state" where
  "update_project i f s = s\<lparr>working := db_update_project i f (working s)\<rparr>"

definition add_log :: "log \<Rightarrow> state \<Rightarrow> state" where
  "add_log l s = s\<lparr>working := db_add_log l (working s)\<rparr>"

definition add_task :: "task \<Rightarrow> state \<Rightarrow> state" where
  "add_task t s = s\<lparr>working := db_add_task t (working s), next_id := Suc (next_id s)\<rparr>"

definition add_run :: "run \<Rightarrow> state \<Rightarrow> state" where
  "add_run r s = s\<lparr>working := db_add_run r (working s), next_id := Suc (next_id s)\<rparr>"

text \<open>One call of \<open>generate_completion\<close>: the answer, and the prompt recorded.\<close>

definition generate_completion ::
  "ports \<Rightarrow> string \<Rightarrow> state \<Rightarrow> (string + string \<times> (string \<times> json) list) \<times> state" where
  "generate_completion P prompt s =
     (completion P (length (prompts s)) prompt, s\<lparr>prompts := prompts s @ [prompt]\<rparr>)"

text \<open>
  \<open>str(e)\<close>: the message of a completion or store failure, \<open>status_code: detail\<close> for
  an \<open>HTTPException\<close>. The built-in errors carry no message in this model (the
  Executor's try block raises none of them).
\<close>

fun str_exn :: "exn \<Rightarrow> string" where
  "str_exn (CompletionError msg) = msg"
| "str_exn (StoreError msg) = msg"
| "str_exn (HTTPException code detail) = show_nat code @ '': '' @ detail"
| "str_exn _ = []"

section \<open>Executor (agents/executor.py)\<close>

definition executor_prompt :: "string \<Rightarrow> string \<Rightarrow> string \<Rightarrow> string" where
  "executor_prompt project_title previous_context task_input =
     join_nl
       ['''',
        ''You are an expert AI agent working on a project.'',
        '''',
        ''PROJECT:'',
        project_title,
        '''',
        ''PREVIOUS WORK:'',
        previous_context,
        '''',
        ''CURRENT TASK:'',
        task_input,
        '''',
        '''',
        ''Continue the work carefully and clearly.'',
        '''']"

text \<open>What one finished task adds to the rolling context.\<close>

definition context_entry :: "int \<Rightarrow> string \<Rightarrow> string" where
  "context_entry order_index result =
     nl # ''---'' @ nl # ''Task '' @ show_int order_index @ '' Output:'' @ nl # result"

definition cost_log :: "ports \<Rightarrow> nat \<Rightarrow> (string \<times> json) list \<Rightarrow> log" where
  "cost_log P run_id usage =
     \<lparr>l_run_id = run_id, l_agent_type = ''llm'', l_level = ''cost'',
      l_message = ''Tokens used: '' @
        py_str P (case map_of usage ''total_tokens'' of None \<Rightarrow> JInt 0 | Some v \<Rightarrow> v)\<rparr>"

definition error_log :: "nat \<Rightarrow> task \<Rightarrow> exn \<Rightarrow> log" where
  "error_log run_id task e =
     \<lparr>l_run_id = run_id, l_agent_type = t_agent_type task, l_level = ''error'',
      l_message = str_exn e\<rparr>"

text \<open>
  The try block for one task: it returns the text the completion service gave, or
  raises. Its last statement, which extends \<open>previous_context\<close>, cannot raise; the loop
  below applies it. The fields read from \<open>task\<close> (\<open>input\<close>, \<open>order_index\<close>,
  \<open>agent_type\<close>, the primary key) are never written during a run, so the row as
  fetched gives them.
\<close>

definition run_try ::
  "ports \<Rightarrow> string \<Rightarrow> nat \<Rightarrow> task \<Rightarrow> string \<Rightarrow> state \<Rightarrow> (exn + string) \<times> state" where
  "run_try P project_title run_id task previous_context s =
     (case commit P ExecRunning (update_task (t_id task) (\<lambda>t. t\<lparr>t_status := ''running''\<rparr>) s) of
        (Inl e, s1) \<Rightarrow> (Inl e, s1)
      | (Inr u, s1) \<Rightarrow>
         (case generate_completion P
                 (executor_prompt project_title previous_context (sanitize P (t_input task))) s1 of
            (Inl msg, s2) \<Rightarrow> (Inl (CompletionError msg), s2)
          | (Inr (result, usage), s2) \<Rightarrow>
             (case commit P ExecOutput
                     (update_task (t_id task)
                        (\<lambda>t. t\<lparr>t_output := Some result, t_status := ''done''\<rparr>) s2) of
                (Inl e, s3) \<Rightarrow> (Inl e, s3)
              | (Inr u, s3) \<Rightarrow>
                 (case commit P ExecCost (add_log (cost_log P run_id usage) s3) of
                    (Inl e, s4) \<Rightarrow> (Inl e, s4)
                  | (Inr u, s4) \<Rightarrow> (Inr result, s4)))))"

text \<open>
  The except block. It catches every exception of the try block; an exception of its
  own statements is not caught.
\<close>

definition run_except :: "ports \<Rightarrow> nat \<Rightarrow> task \<Rightarrow> exn \<Rightarrow> state \<Rightarrow> (exn + unit) \<times> state" where
  "run_except P run_id task e s =
     (case rollback P ExecRollback s of
        (Inl e', s1) \<Rightarrow> (Inl e', s1)
      | (Inr u, s1) \<Rightarrow>
         (case commit P ExecPending
                 (update_task (t_id task) (\<lambda>t. t\<lparr>t_status := ''pending''\<rparr>) s1) of
            (Inl e', s2) \<Rightarrow> (Inl e', s2)
          | (Inr u, s2) \<Rightarrow>
             (case commit P ExecErrorLog (add_log (error_log run_id task e) s2) of
                (Inl e', s3) \<Rightarrow> (Inl e', s3)
              | (Inr u, s3) \<Rightarrow> (Inr (), s3))))"

text \<open>
  The loop over the tasks. An exception that leaves the try statement (raised by the
  except block) ends the loop and propagates.
\<close>

fun run_loop ::
  "ports \<Rightarrow> string \<Rightarrow> nat \<Rightarrow> task list \<Rightarrow> string \<Rightarrow> state \<Rightarrow> (exn + unit) \<times> state" where
  "run_loop P project_title run_id [] previous_context s = (Inr (), s)"
| "run_loop P project_title run_id (task # rest) previous_context s =
     (case run_try P project_title run_id task previous_context s of
        (Inr result, s') \<Rightarrow>
          run_loop P project_title run_id rest
            (previous_context @ context_entry (t_order_index task) result) s'
      | (Inl e, s') \<Rightarrow>
         (case run_except P run_id task e s' of
            (Inr u, s'') \<Rightarrow> run_loop P project_title run_id rest previous_context s''
          | (Inl e', s'') \<Rightarrow> (Inl e', s'')))"

definition ExecutorAgent_run ::
  "ports \<Rightarrow> string \<Rightarrow> task list \<Rightarrow> nat \<Rightarrow> state \<Rightarrow> (exn + unit) \<times> state" where
  "ExecutorAgent_run P project_title tasks run_id s = run_loop P project_title run_id tasks [] s"

section \<open>Planner (agents/planner.py)\<close>

definition MAX_REFINES :: nat where
  "MAX_REFINES = 3"

text \<open>\<open>project_description or "N/A"\<close>\<close>

definition description_or_na :: "string option \<Rightarrow> string" where
  "description_or_na d = (case d of None \<Rightarrow> ''N/A'' | Some x \<Rightarrow> (if x = [] then ''N/A'' else x))"

definition base_prompt :: "ports \<Rightarrow> string \<Rightarrow> string option \<Rightarrow> string" where
  \<open>base_prompt P project_title project_description =
     join_nl
       ['''',
        ''You are a planning agent.'',
        '''',
        ''Break the project into clear, ordered execution tasks.'',
        '''',
        ''Return ONLY valid JSON. No markdown. No explanations.'',
        '''',
        ''JSON Schema:'',
        ''{'',
        ''  "tasks": ['',
        ''    {'',
        ''      "order_index": number,'',
        ''      "input": string'',
        ''    }'',
        ''  ]'',
        ''}'',
        '''',
        ''Project Title:'',
        sanitize P (Some project_title),
        '''',
        ''Project Description:'',
        sanitize P (Some (description_or_na project_description)),
        '''']\<close>

definition fix_prompt :: "string \<Rightarrow> string" where
  "fix_prompt current = ''Fix this and return ONLY valid JSON with same schema:'' @ nl # current"

text \<open>
  The loop \<open>for _ in range(self.MAX_REFINES)\<close>, with the rounds left as a counter: it
  breaks when \<open>current\<close> parses, and asks for a correction otherwise. An exception of
  \<open>generate_completion\<close> inside the except block propagates.
\<close>

fun refine :: "ports \<Rightarrow> nat \<Rightarrow> string \<Rightarrow> state \<Rightarrow> (exn + string) \<times> state" where
  "refine P 0 current s = (Inr current, s)"
| "refine P (Suc n) current s =
     (case json_loads P current of
        Some data \<Rightarrow> (Inr current, s)
      | None \<Rightarrow>
         (case generate_completion P (fix_prompt current) s of
            (Inl msg, s') \<Rightarrow> (Inl (CompletionError msg), s')
          | (Inr (current', usage), s') \<Rightarrow> refine P n current' s'))"

text \<open>Lines 41 to 55: the first call, the corrections, and the final parse.\<close>

definition fetch_json ::
  "ports \<Rightarrow> string \<Rightarrow> string option \<Rightarrow> state \<Rightarrow> (exn + json) \<times> state" where
  "fetch_json P project_title project_description s =
     (case generate_completion P (base_prompt P project_title project_description) s of
        (Inl msg, s1) \<Rightarrow> (Inl (CompletionError msg), s1)
      | (Inr (current, usage), s1) \<Rightarrow>
         (case refine P MAX_REFINES current s1 of
            (Inl e, s2) \<Rightarrow> (Inl e, s2)
          | (Inr current', s2) \<Rightarrow>
             (case json_loads P current' of
                None \<Rightarrow> (Inl (HTTPException 400 ''Planner failed to produce valid JSON''), s2)
              | Some data \<Rightarrow> (Inr data, s2))))"

text \<open>The Task built from one element; its primary key is the next one of the store.\<close>

definition new_task :: "nat \<Rightarrow> nat \<Rightarrow> string \<Rightarrow> int \<Rightarrow> task" where
  "new_task i run_id input order_index =
     \<lparr>t_id = i, t_run_id = run_id, t_agent_type = ''executor'', t_status = ''pending'',
      t_input = Some input, t_output = None, t_order_index = order_index\<rparr>"

text \<open>
  The loop over the elements of \<open>tasks\<close>; \<open>created\<close> is \<open>created_tasks\<close>. The arguments
  of \<open>Task(...)\<close> are evaluated in the order written: \<open>str(t["input"])[:4000]\<close>, then
  \<open>int(t["order_index"])\<close>.
\<close>

fun add_tasks ::
  "ports \<Rightarrow> nat \<Rightarrow> json list \<Rightarrow> task list \<Rightarrow> state \<Rightarrow> (exn + task list) \<times> state" where
  "add_tasks P run_id [] created s = (Inr created, s)"
| "add_tasks P run_id (t # ts) created s =
     (case py_in ''order_index'' t of
        Inl e \<Rightarrow> (Inl e, s)
      | Inr False \<Rightarrow> add_tasks P run_id ts created s
      | Inr True \<Rightarrow>
         (case py_in ''input'' t of
            Inl e \<Rightarrow> (Inl e, s)
          | Inr False \<Rightarrow> add_tasks P run_id ts created s
          | Inr True \<Rightarrow>
             (case subscript t ''input'' of
                Inl e \<Rightarrow> (Inl e, s)
              | Inr v_input \<Rightarrow>
                 (case subscript t ''order_index'' of
                    Inl e \<Rightarrow> (Inl e, s)
                  | Inr v_index \<Rightarrow>
                     (case py_int P v_index of
                        Inl e \<Rightarrow> (Inl e, s)
                      | Inr n \<Rightarrow>
                         (let task = new_task (next_id s) run_id (take 4000 (py_str P v_input)) n
                          in add_tasks P run_id ts (created @ [task]) (add_task task s)))))))"

text \<open>
  Lines 57 to 79. \<open>not isinstance(tasks, list) or not tasks\<close> holds of everything but
  a non-empty list.
\<close>

definition create_tasks :: "ports \<Rightarrow> nat \<Rightarrow> json \<Rightarrow> state \<Rightarrow> (exn + task list) \<times> state" where
  "create_tasks P run_id data s =
     (case json_get data ''tasks'' of
        Inl e \<Rightarrow> (Inl e, s)
      | Inr tasks \<Rightarrow>
         (case tasks of
            JArr (x # xs) \<Rightarrow>
              (case add_tasks P run_id (x # xs) [] s of
                 (Inl e, s') \<Rightarrow> (Inl e, s')
               | (Inr created, s') \<Rightarrow>
                  (case commit P PlanCommit
                          (update_run run_id (\<lambda>r. r\<lparr>r_status := ''planned''\<rparr>) s') of
                     (Inl e, s'') \<Rightarrow> (Inl e, s'')
                   | (Inr u, s'') \<Rightarrow> (Inr created, s'')))
          | _ \<Rightarrow> (Inl (HTTPException 400 ''Planner returned invalid tasks''), s)))"

definition plan ::
  "ports \<Rightarrow> nat \<Rightarrow> string \<Rightarrow> string option \<Rightarrow> state \<Rightarrow> (exn + task list) \<times> state" where
  "plan P run_id project_title project_description s =
     (case fetch_json P project_title project_description s of
        (Inl e, s') \<Rightarrow> (Inl e, s')
      | (Inr data, s') \<Rightarrow> create_tasks P run_id data s')"

section \<open>Run coordinator (api/runs.py)\<close>

text \<open>The Project of that id owned by the user: \<open>.filter(...).first()\<close>.\<close>

definition find_project :: "nat \<Rightarrow> nat \<Rightarrow> db \<Rightarrow> project option" where
  "find_project project_id user_id d =
     find (\<lambda>p. p_id p = project_id \<and> p_owner_id p = user_id) (db_projects d)"

text \<open>The Run of that id joined with its Project, owned by the user.\<close>

definition find_run :: "nat \<Rightarrow> nat \<Rightarrow> db \<Rightarrow> (run \<times> project) option" where
  "find_run run_id user_id d =
     find (\<lambda>(r, p). r_id r = run_id \<and> p_owner_id p = user_id)
       (concat (map (\<lambda>r. map (\<lambda>p. (r, p)) (filter (\<lambda>p. r_project_id r = p_id p) (db_projects d)))
                  (db_runs d)))"

text \<open>The bulk update: every non-archived Run of the project becomes archived.\<close>

definition db_archive_runs :: "nat \<Rightarrow> db \<Rightarrow> db" where
  "db_archive_runs project_id d =
     d\<lparr>db_runs :=
         map (\<lambda>r. if r_project_id r = project_id \<and> \<not> r_is_archived r
                   then r\<lparr>r_is_archived := True\<rparr> else r)
           (db_runs d)\<rparr>"

definition archive_runs :: "nat \<Rightarrow> state \<Rightarrow> state" where
  "archive_runs project_id s = s\<lparr>working := db_archive_runs project_id (working s)\<rparr>"

definition new_run :: "nat \<Rightarrow> nat \<Rightarrow> run" where
  "new_run i project_id =
     \<lparr>r_id = i, r_project_id = project_id, r_status = ''created'', r_final_summary = None,
      r_is_archived = False, r_is_locked = False\<rparr>"

text \<open>The attributes of a Run object as the session has them now.\<close>

definition refresh_run :: "run \<Rightarrow> state \<Rightarrow> run" where
  "refresh_run r s =
     (case find (\<lambda>x. r_id x = r_id r) (db_runs (working s)) of None \<Rightarrow> r | Some x \<Rightarrow> x)"

text \<open>
  \<open>create_and_plan_run\<close>. The result is the Run that \<open>run_to_dict\<close> renders. The try
  block is \<open>create_and_plan_try\<close>; the finally block follows it on every outcome, and
  an exception of the finally block replaces the outcome of the try block. The two
  commits before the try statement are outside it. Queries are modelled as total.
\<close>

definition create_and_plan_try :: "ports \<Rightarrow> project \<Rightarrow> state \<Rightarrow> (exn + run) \<times> state" where
  "create_and_plan_try P project s =
     (let run = new_run (next_id s) (p_id project)
      in case commit P CreateRun (add_run run s) of
           (Inl e, s1) \<Rightarrow> (Inl e, s1)
         | (Inr u, s1) \<Rightarrow>
            (case plan P (r_id run) (p_title project) (p_description project) s1 of
               (Inl e, s2) \<Rightarrow> (Inl e, s2)
             | (Inr created, s2) \<Rightarrow> (Inr (refresh_run run s2), s2)))"

definition create_and_plan_run :: "ports \<Rightarrow> nat \<Rightarrow> nat \<Rightarrow> state \<Rightarrow> (exn + run) \<times> state" where
  "create_and_plan_run P project_id user_id s =
     (case find_project project_id user_id (working s) of
        None \<Rightarrow> (Inl (HTTPException 404 ''Project not found''), s)
      | Some project \<Rightarrow>
         if p_is_locked project
         then (Inl (HTTPException 409 ''Project already has a running job''), s)
         else
           (case commit P CreateLock
                   (update_project (p_id project) (\<lambda>p. p\<lparr>p_is_locked := True\<rparr>) s) of
              (Inl e, s1) \<Rightarrow> (Inl e, s1)
            | (Inr u, s1) \<Rightarrow>
               (case commit P CreateArchive (archive_runs (p_id project) s1) of
                  (Inl e, s2) \<Rightarrow> (Inl e, s2)
                | (Inr u, s2) \<Rightarrow>
                   (case create_and_plan_try P project s2 of
                      (result, s3) \<Rightarrow>
                        (case commit P CreateUnlock
                                (update_project (p_id project)
                                   (\<lambda>p. p\<lparr>p_is_locked := False\<rparr>) s3) of
                           (Inl e, s4) \<Rightarrow> (Inl e, s4)
                         | (Inr u, s4) \<Rightarrow> (result, s4))))))"

text \<open>The pending Tasks of a Run, ordered by \<open>order_index\<close>.\<close>

definition pending_tasks :: "nat \<Rightarrow> db \<Rightarrow> task list" where
  "pending_tasks run_id d =
     sort_key t_order_index
       (filter (\<lambda>t. t_run_id t = run_id \<and> t_status t = ''pending'') (db_tasks d))"

text \<open>\<open>execute_run\<close>: the try block, then the whole operation with its finally block.\<close>

definition execute_try :: "ports \<Rightarrow> run \<Rightarrow> project \<Rightarrow> state \<Rightarrow> (exn + nat \<times> string) \<times> state" where
  "execute_try P run project s =
     (case pending_tasks (r_id run) (working s) of
        [] \<Rightarrow> (Inl (HTTPException 400 ''No pending tasks''), s)
      | t # ts \<Rightarrow>
         (case commit P ExecuteRunning
                 (update_run (r_id run) (\<lambda>r. r\<lparr>r_status := ''running''\<rparr>) s) of
            (Inl e, s1) \<Rightarrow> (Inl e, s1)
          | (Inr u, s1) \<Rightarrow>
             (case ExecutorAgent_run P (p_title project) (t # ts) (r_id run) s1 of
                (Inl e, s2) \<Rightarrow> (Inl e, s2)
              | (Inr u, s2) \<Rightarrow>
                 (case commit P ExecuteCompleted
                         (update_run (r_id run) (\<lambda>r. r\<lparr>r_status := ''completed''\<rparr>) s2) of
                    (Inl e, s3) \<Rightarrow> (Inl e, s3)
                  | (Inr u, s3) \<Rightarrow> (Inr (r_id run, r_status (refresh_run run s3)), s3)))))"

definition execute_run :: "ports \<Rightarrow> nat \<Rightarrow> nat \<Rightarrow> state \<Rightarrow> (exn + nat \<times> string) \<times> state" where
  "execute_run P run_id user_id s =
     (case find_run run_id user_id (working s) of
        None \<Rightarrow> (Inl (HTTPException 404 ''Run not found''), s)
      | Some (run, project) \<Rightarrow>
         if r_is_locked run
         then (Inl (HTTPException 409 ''Run already executing''), s)
         else
           (case commit P ExecuteLock
                   (update_run (r_id run) (\<lambda>r. r\<lparr>r_is_locked := True\<rparr>) s) of
              (Inl e, s1) \<Rightarrow> (Inl e, s1)
            | (Inr u, s1) \<Rightarrow>
               (case execute_try P run project s1 of
                  (result, s2) \<Rightarrow>
                    (case commit P ExecuteUnlock
                            (update_run (r_id run) (\<lambda>r. r\<lparr>r_is_locked := False\<rparr>) s2) of
                       (Inl e, s3) \<Rightarrow> (Inl e, s3)
                     | (Inr u, s3) \<Rightarrow> (result, s3)))))"

text \<open>The snapshot \<open>summarize_run\<close> builds of a Task.\<close>

definition text_val :: "string option \<Rightarrow> pyval" where
  "text_val x = (case x of None \<Rightarrow> PNone | Some v \<Rightarrow> PStr v)"

definition task_dict :: "task \<Rightarrow> snapshot" where
  "task_dict t =
     [(''order_index'', PInt (t_order_index t)),
      (''agent_type'', PStr (t_agent_type t)),
      (''input'', text_val (t_input t)),
      (''output'', text_val (t_output t))]"

definition run_tasks :: "nat \<Rightarrow> db \<Rightarrow> task list" where
  "run_tasks run_id d = sort_key t_order_index (filter (\<lambda>t. t_run_id t = run_id) (db_tasks d))"

definition summarize_run ::
  "ports \<Rightarrow> nat \<Rightarrow> nat \<Rightarrow> state \<Rightarrow> (exn + nat \<times> string \<times> string option) \<times> state" where
  "summarize_run P run_id user_id s =
     (case find_run run_id user_id (working s) of
        None \<Rightarrow> (Inl (HTTPException 404 ''Run not found''), s)
      | Some (run, project) \<Rightarrow>
         (case run_tasks run_id (working s) of
            [] \<Rightarrow> (Inl (HTTPException 400 ''No tasks to summarize''), s)
          | t # ts \<Rightarrow>
             (case ReporterAgent_run (p_title project) (map task_dict (t # ts)) of
                Inl e \<Rightarrow> (Inl e, s)
              | Inr summary \<Rightarrow>
                 (case commit P SummarizeCommit
                         (update_run (r_id run)
                            (\<lambda>r. r\<lparr>r_final_summary := Some summary,
                                   r_status := ''summarized''\<rparr>) s) of
                    (Inl e, s1) \<Rightarrow> (Inl e, s1)
                  | (Inr u, s1) \<Rightarrow>
                     (let run' = refresh_run run s1
                      in (Inr (r_id run', r_status run', r_final_summary run'), s1))))))"

section \<open>Notions used to state the properties\<close>

text \<open>
  These are not part of the program. What the Planner takes from one element of
  \<open>tasks\<close>: the input text and the order index of an object carrying both keys whose
  \<open>order_index\<close> is accepted by \<open>int\<close>. An element is acceptable when it is an object
  and, if it carries both keys, its \<open>order_index\<close> is accepted by \<open>int\<close>.
\<close>

definition element_fields :: "ports \<Rightarrow> json \<Rightarrow> (string \<times> int) option" where
  "element_fields P e =
     (case e of
        JObj kvs \<Rightarrow>
          (case (map_of kvs ''order_index'', map_of kvs ''input'') of
             (Some v_index, Some v_input) \<Rightarrow>
               (case py_int P v_index of
                  Inr n \<Rightarrow> Some (take 4000 (py_str P v_input), n)
                | Inl e \<Rightarrow> None)
           | _ \<Rightarrow> None)
      | _ \<Rightarrow> None)"

definition element_ok :: "ports \<Rightarrow> json \<Rightarrow> bool" where
  "element_ok P e =
     (case e of
        JObj kvs \<Rightarrow>
          (case (map_of kvs ''order_index'', map_of kvs ''input'') of
             (Some v_index, Some v_input) \<Rightarrow>
               (case py_int P v_index of Inr n \<Rightarrow> True | Inl e \<Rightarrow> False)
           | _ \<Rightarrow> True)
      | _ \<Rightarrow> False)"


text \<open>
  The Tasks expected from a list of elements, with primary keys from \<open>i\<close> on: one per
  element that yields fields, in the order of the list.
\<close>

definition planned :: "ports \<Rightarrow> nat \<Rightarrow> nat \<Rightarrow> json list \<Rightarrow> task list" where
  "planned P run_id i elems =
     map (\<lambda>(k, (input, order_index)).
            \<lparr>t_id = k, t_run_id = run_id, t_agent_type = ''executor'', t_status = ''pending'',
             t_input = Some input, t_output = None, t_order_index = order_index\<rparr>)
       (enumerate i (List.map_filter (element_fields P) elems))"

text \<open>The rows after a plan: the Tasks added, the Run planned.\<close>

definition planned_db :: "nat \<Rightarrow> task list \<Rightarrow> db \<Rightarrow> db" where
  "planned_db run_id new d =
     d\<lparr>db_runs := map (\<lambda>r. if r_id r = run_id then r\<lparr>r_status := ''planned''\<rparr> else r) (db_runs d),
       db_tasks := db_tasks d @ new\<rparr>"

text \<open>The session with Tasks added and not yet committed.\<close>

definition with_tasks :: "task list \<Rightarrow> state \<Rightarrow> state" where
  "with_tasks new s =
     s\<lparr>working := (working s)\<lparr>db_tasks := db_tasks (working s) @ new\<rparr>,
       next_id := next_id s + length new\<rparr>"

text \<open>The errors of Python's built-ins.\<close>

fun builtin_error :: "exn \<Rightarrow> bool" where
  "builtin_error ValueError = True"
| "builtin_error TypeError = True"
| "builtin_error KeyError = True"
| "builtin_error OverflowError = True"
| "builtin_error AttributeError = True"
| "builtin_error _ = False"

text \<open>The non-archived Runs of a Project.\<close>

definition active_runs :: "nat \<Rightarrow> db \<Rightarrow> run list" where
  "active_runs project_id d =
     filter (\<lambda>r. r_project_id r = project_id \<and> \<not> r_is_archived r) (db_runs d)"

text \<open>A request gets a session of its own, which starts from the committed rows.\<close>

definition new_session :: "state \<Rightarrow> state" where
  "new_session s = s\<lparr>working := committed s\<rparr>"

text \<open>The place of a status in the order created, planned, running, completed, summarized.\<close>

definition status_rank :: "string \<Rightarrow> nat" where
  "status_rank x =
     (if x = ''planned'' then 1
      else if x = ''running'' then 2
      else if x = ''completed'' then 3
      else if x = ''summarized'' then 4
      else 0)"

section \<open>Example data\<close>

text \<open>
  A small store and collaborators with fixed answers, used where a property is shown at a
  concrete input. \<open>ex_sanitize\<close> returns its text unchanged, as the real one does on the
  texts used here.
\<close>

definition ex_sanitize :: "string option \<Rightarrow> string" where
  "ex_sanitize x = (case x of None \<Rightarrow> [] | Some v \<Rightarrow> v)"

definition ex_snapshots :: "snapshot list" where
  "ex_snapshots =
     [[(''order_index'', PInt 1), (''agent_type'', PStr ''executor''),
       (''input'', PStr ''  first ''), (''output'', PStr ''done'')],
      [(''order_index'', PInt 2), (''agent_type'', PNone),
       (''input'', PNone), (''output'', PStr [CHR 0x20, CHR 0x0A])],
      [(''agent_type'', PStr ''critic''), (''input'', PStr ''third''), (''output'', PNone)]]"

definition ex_task :: "nat \<Rightarrow> string \<Rightarrow> string \<Rightarrow> task" where
  "ex_task i status input =
     \<lparr>t_id = i, t_run_id = 5, t_agent_type = ''executor'', t_status = status,
      t_input = Some input, t_output = None, t_order_index = int i - 10\<rparr>"

definition ex_db :: db where
  "ex_db =
     \<lparr>db_projects = [\<lparr>p_id = 3, p_title = ''Demo'', p_description = None, p_owner_id = 7,
                       p_is_locked = False\<rparr>],
      db_runs = [\<lparr>r_id = 5, r_project_id = 3, r_status = ''running'', r_final_summary = None,
                  r_is_archived = False, r_is_locked = True\<rparr>],
      db_tasks = [ex_task 11 ''pending'' ''first'', ex_task 12 ''pending'' ''second''],
      db_logs = []\<rparr>"

definition ex_state :: state where
  "ex_state =
     \<lparr>committed = ex_db, working = ex_db, next_id = 20, history = [], prompts = [],
      store_ops = 0\<rparr>"

definition ex_plan_text :: string where
  \<open>ex_plan_text =
     ''{"tasks": [{"order_index": 1, "input": "first"}, {"input": "orphan"}, '' @
     ''{"order_index": 2, "input": "second"}]}''\<close>

definition ex_plan_json :: json where
  "ex_plan_json =
     JObj [(''tasks'',
            JArr [JObj [(''order_index'', JInt 1), (''input'', JStr ''first'')],
                  JObj [(''input'', JStr ''orphan'')],
                  JObj [(''order_index'', JInt 2), (''input'', JStr ''second'')]])]"

definition ex_bad_text :: string where
  \<open>ex_bad_text = ''{"tasks": [{"order_index": "one", "input": "x"}]}''\<close>

definition ex_bad_json :: json where
  "ex_bad_json = JObj [(''tasks'', JArr [JObj [(''order_index'', JStr ''one''), (''input'', JStr ''x'')]])]"

definition ex_twin_text :: string where
  \<open>ex_twin_text =
     ''{"tasks": [{"order_index": 1, "input": "first"}, {"order_index": 1, "input": "second"}]}''\<close>

definition ex_twin_json :: json where
  "ex_twin_json =
     JObj [(''tasks'',
            JArr [JObj [(''order_index'', JInt 1), (''input'', JStr ''first'')],
                  JObj [(''order_index'', JInt 1), (''input'', JStr ''second'')]])]"

definition ex_big_text :: string where
  \<open>ex_big_text = ''{"tasks": [{"order_index": 9223372036854775808, "input": "x"}]}''\<close>

definition ex_big_json :: json where
  "ex_big_json =
     JObj [(''tasks'', JArr [JObj [(''order_index'', JInt 9223372036854775808), (''input'', JStr ''x'')]])]"

definition ex_loads :: "string \<Rightarrow> json option" where
  "ex_loads x =
     (if x = ex_plan_text then Some ex_plan_json
      else if x = ex_bad_text then Some ex_bad_json
      else if x = ex_twin_text then Some ex_twin_json
      else if x = ex_big_text then Some ex_big_json
      else None)"

text \<open>
  A service that answers \<open>not json\<close> to its first \<open>k\<close> calls and \<open>good\<close> afterwards,
  with a store that accepts every call.
\<close>

definition ex_plan_ports :: "nat \<Rightarrow> string \<Rightarrow> ports" where
  "ex_plan_ports k good =
     \<lparr>completion = (\<lambda>n p. if n < k then Inr (''not json'', []) else Inr (good, [])),
      sanitize = ex_sanitize,
      store_error = (\<lambda>n c d. None),
      json_loads = ex_loads,
      json_str = (\<lambda>v. []),
      int_of_str = (\<lambda>x. None),
      int_of_float = (\<lambda>f. NotANumber)\<rparr>"

definition ex_plan_db :: db where
  "ex_plan_db =
     \<lparr>db_projects = [\<lparr>p_id = 3, p_title = ''Demo'', p_description = None, p_owner_id = 7,
                       p_is_locked = True\<rparr>],
      db_runs = [\<lparr>r_id = 5, r_project_id = 3, r_status = ''created'', r_final_summary = None,
                  r_is_archived = False, r_is_locked = False\<rparr>],
      db_tasks = [],
      db_logs = []\<rparr>"

definition ex_plan_state :: state where
  "ex_plan_state =
     \<lparr>committed = ex_plan_db, working = ex_plan_db, next_id = 20, history = [], prompts = [],
      store_ops = 0\<rparr>"

definition ex_planned_db :: db where
  "ex_planned_db =
     \<lparr>db_projects = [\<lparr>p_id = 3, p_title = ''Demo'', p_description = None, p_owner_id = 7,
                       p_is_locked = True\<rparr>],
      db_runs = [\<lparr>r_id = 5, r_project_id = 3, r_status = ''planned'', r_final_summary = None,
                  r_is_archived = False, r_is_locked = False\<rparr>],
      db_tasks = [\<lparr>t_id = 20, t_run_id = 5, t_agent_type = ''executor'', t_status = ''pending'',
                   t_input = Some ''first'', t_output = None, t_order_index = 1\<rparr>,
                  \<lparr>t_id = 21, t_run_id = 5, t_agent_type = ''executor'', t_status = ''pending'',
                   t_input = Some ''second'', t_output = None, t_order_index = 2\<rparr>],
      db_logs = []\<rparr>"



section \<open>Properties of the Reporter\<close>

lemma join_nl_Cons:
  "join_nl (l # ls) = l @ concat (map (\<lambda>x. CHR 0x0A # x) ls)"
  by (induction ls arbitrary: l) (simp_all add: nl_def)

lemma join_nl_blocks:
  "join_nl ((h # hs) @ concat (map f ts) @ cl) =
     h @ concat (map ((#) CHR 0x0A) hs)
       @ concat (map (\<lambda>t. concat (map ((#) CHR 0x0A) (f t))) ts)
       @ concat (map ((#) CHR 0x0A) cl)"
proof -
  have "concat (map ((#) CHR 0x0A) (concat (map f ts))) =
        concat (map (\<lambda>t. concat (map ((#) CHR 0x0A) (f t))) ts)"
    by (induction ts) simp_all
  then show ?thesis
    by (simp add: join_nl_Cons)
qed

lemma strip_Nil: "strip [] = []"
  by (simp add: strip_def)

lemma val_strip_stripped:
  "is_text (dict_get t k PNone) \<Longrightarrow>
   val_strip (py_or (dict_get t k PNone) (PStr '''')) = Inr (stripped t k)"
  by (cases "dict_get t k PNone") (simp_all add: py_or_def stripped_def strip_Nil)

lemma output_empty_stripped:
  "is_text (dict_get t ''output'' PNone) \<Longrightarrow> output_empty t = (stripped t ''output'' = [])"
  by (cases "dict_get t ''output'' PNone") (simp_all add: output_empty_def stripped_def)

lemma step_block_lines:
  assumes "wf_snapshot t"
  shows "step_block t =
     Inr (['''',
           ''Step '' @ format_val (dict_get t ''order_index'' (PStr ''?'')) @ '' ('' @
             format_val (py_or (dict_get t ''agent_type'' PNone) (PStr ''executor'')) @ ''):'']
          @ (if stripped t ''input'' = [] then [] else [''- Instruction: '' @ stripped t ''input''])
          @ [if output_empty t then ''- Result: (no output recorded)''
             else ''- Result: '' @ stripped t ''output''])"
proof -
  have i: "val_strip (py_or (dict_get t ''input'' PNone) (PStr '''')) = Inr (stripped t ''input'')"
    using assms by (simp add: wf_snapshot_def val_strip_stripped)
  have out: "val_strip (py_or (dict_get t ''output'' PNone) (PStr '''')) = Inr (stripped t ''output'')"
    using assms by (simp add: wf_snapshot_def val_strip_stripped)
  have e: "output_empty t = (stripped t ''output'' = [])"
    using assms by (simp add: wf_snapshot_def output_empty_stripped)
  show ?thesis
    by (simp add: step_block_def Let_def i out e no_output_def)
qed

lemma step_blocks_lines:
  "list_all wf_snapshot ts \<Longrightarrow>
   step_blocks ts =
     Inr (concat (map (\<lambda>t.
        ['''',
         ''Step '' @ format_val (dict_get t ''order_index'' (PStr ''?'')) @ '' ('' @
           format_val (py_or (dict_get t ''agent_type'' PNone) (PStr ''executor'')) @ ''):'']
        @ (if stripped t ''input'' = [] then [] else [''- Instruction: '' @ stripped t ''input''])
        @ [if output_empty t then ''- Result: (no output recorded)''
           else ''- Result: '' @ stripped t ''output'']) ts))"
proof (induction ts)
  case Nil
  then show ?case by simp
next
  case (Cons t ts)
  then have "wf_snapshot t" and "list_all wf_snapshot ts" by simp_all
  then show ?case
    using Cons.IH by (simp add: step_block_lines del: append.simps)
qed

text \<open>
  C9. The Reporter is a function of the project title and the task list alone. On the
  empty list it returns exactly the header (the line naming the project, an empty
  line, the line announcing the steps), an empty line and the closing statement, with no
  step block. On every list of well-formed snapshots it returns a summary (it does not
  raise): the header, then for each task in the order of the list an empty line, the
  line \<open>Step i (agent):\<close>, the line \<open>- Instruction: ...\<close> when the stripped input is not
  empty, and a result line, which is the literal \<open>- Result: (no output recorded)\<close> when
  the output of the task is empty (\<open>None\<close>, missing, or blank); then an empty line and
  the closing statement.
\<close>

theorem reporter_run_total_and_placeholder:
  "ReporterAgent_run project_title [] =
     Inr (''Summary for project: '' @ project_title @ [CHR 0x0A, CHR 0x0A] @
          ''This run executed the following steps:'' @ [CHR 0x0A, CHR 0x0A] @
          ''Overall, the project has been broken down into clear steps and '' @
          ''each step has been processed. This summary can be used as a high-level '' @
          ''report of what the orchestrator completed.'')
   \<and> (list_all wf_snapshot tasks \<longrightarrow>
        ReporterAgent_run project_title tasks =
          Inr (''Summary for project: '' @ project_title @ [CHR 0x0A, CHR 0x0A] @
               ''This run executed the following steps:'' @
               concat (map (\<lambda>t.
                  [CHR 0x0A, CHR 0x0A] @
                  ''Step '' @ format_val (dict_get t ''order_index'' (PStr ''?'')) @ '' ('' @
                    format_val (py_or (dict_get t ''agent_type'' PNone) (PStr ''executor'')) @
                    ''):'' @
                  (if stripped t ''input'' = [] then []
                   else CHR 0x0A # ''- Instruction: '' @ stripped t ''input'') @
                  (if output_empty t then CHR 0x0A # ''- Result: (no output recorded)''
                   else CHR 0x0A # ''- Result: '' @ stripped t ''output'')) tasks) @
               [CHR 0x0A, CHR 0x0A] @
               ''Overall, the project has been broken down into clear steps and '' @
               ''each step has been processed. This summary can be used as a high-level '' @
               ''report of what the orchestrator completed.''))"
proof (intro conjI impI)
  show "ReporterAgent_run project_title [] =
     Inr (''Summary for project: '' @ project_title @ [CHR 0x0A, CHR 0x0A] @
          ''This run executed the following steps:'' @ [CHR 0x0A, CHR 0x0A] @
          ''Overall, the project has been broken down into clear steps and '' @
          ''each step has been processed. This summary can be used as a high-level '' @
          ''report of what the orchestrator completed.'')"
    by (simp add: ReporterAgent_run_def header_def closing_def nl_def)
next
  assume wf: "list_all wf_snapshot tasks"
  have blk: "(\<lambda>t. concat (map ((#) CHR 0x0A)
        (['''',
          ''Step '' @ format_val (dict_get t ''order_index'' (PStr ''?'')) @ '' ('' @
            format_val (py_or (dict_get t ''agent_type'' PNone) (PStr ''executor'')) @ ''):'']
         @ (if stripped t ''input'' = [] then [] else [''- Instruction: '' @ stripped t ''input''])
         @ [if output_empty t then ''- Result: (no output recorded)''
            else ''- Result: '' @ stripped t ''output'']))) =
      (\<lambda>t. [CHR 0x0A, CHR 0x0A] @
                  ''Step '' @ format_val (dict_get t ''order_index'' (PStr ''?'')) @ '' ('' @
                    format_val (py_or (dict_get t ''agent_type'' PNone) (PStr ''executor'')) @
                    ''):'' @
                  (if stripped t ''input'' = [] then []
                   else CHR 0x0A # ''- Instruction: '' @ stripped t ''input'') @
                  (if output_empty t then CHR 0x0A # ''- Result: (no output recorded)''
                   else CHR 0x0A # ''- Result: '' @ stripped t ''output''))"
    by (rule ext) simp
  show "ReporterAgent_run project_title tasks =
          Inr (''Summary for project: '' @ project_title @ [CHR 0x0A, CHR 0x0A] @
               ''This run executed the following steps:'' @
               concat (map (\<lambda>t.
                  [CHR 0x0A, CHR 0x0A] @
                  ''Step '' @ format_val (dict_get t ''order_index'' (PStr ''?'')) @ '' ('' @
                    format_val (py_or (dict_get t ''agent_type'' PNone) (PStr ''executor'')) @
                    ''):'' @
                  (if stripped t ''input'' = [] then []
                   else CHR 0x0A # ''- Instruction: '' @ stripped t ''input'') @
                  (if output_empty t then CHR 0x0A # ''- Result: (no output recorded)''
                   else CHR 0x0A # ''- Result: '' @ stripped t ''output'')) tasks) @
               [CHR 0x0A, CHR 0x0A] @
               ''Overall, the project has been broken down into clear steps and '' @
               ''each step has been processed. This summary can be used as a high-level '' @
               ''report of what the orchestrator completed.'')"
    unfolding ReporterAgent_run_def step_blocks_lines [OF wf] header_def closing_def sum.case
      join_nl_blocks blk
    by simp
qed

theorem reporter_run_total_and_placeholder_witness:
  "list_all wf_snapshot ex_snapshots
   \<and> ReporterAgent_run ''Demo'' ex_snapshots =
       Inr (''Summary for project: Demo'' @ [CHR 0x0A, CHR 0x0A] @
            ''This run executed the following steps:'' @ [CHR 0x0A, CHR 0x0A] @
            ''Step 1 (executor):'' @ [CHR 0x0A] @
            ''- Instruction: first'' @ [CHR 0x0A] @
            ''- Result: done'' @ [CHR 0x0A, CHR 0x0A] @
            ''Step 2 (executor):'' @ [CHR 0x0A] @
            ''- Result: (no output recorded)'' @ [CHR 0x0A, CHR 0x0A] @
            ''Step ? (critic):'' @ [CHR 0x0A] @
            ''- Instruction: third'' @ [CHR 0x0A] @
            ''- Result: (no output recorded)'' @ [CHR 0x0A, CHR 0x0A] @
            ''Overall, the project has been broken down into clear steps and '' @
            ''each step has been processed. This summary can be used as a high-level '' @
            ''report of what the orchestrator completed.'')"
  using reporter_run_total_and_placeholder [of "''Demo''" ex_snapshots]
  by (simp add: ex_snapshots_def wf_snapshot_def output_empty_def stripped_def dict_get_def
      py_or_def strip_def py_isspace_def show_int_def show_nat.simps digit_def)

section \<open>Commits and rollbacks\<close>

lemma commit_accepted:
  "store_error P (store_ops s) call (working s) = None \<Longrightarrow>
   commit P call s =
     (Inr (), s\<lparr>committed := working s, history := history s @ [working s],
               store_ops := Suc (store_ops s)\<rparr>)"
  by (simp add: commit_def)

lemma commit_refused:
  "store_error P (store_ops s) call (working s) = Some msg \<Longrightarrow>
   commit P call s = (Inl (StoreError msg), s\<lparr>store_ops := Suc (store_ops s)\<rparr>)"
  by (simp add: commit_def)

lemma commit_cases:
  obtains (refused) msg where "commit P call s = (Inl (StoreError msg), s\<lparr>store_ops := Suc (store_ops s)\<rparr>)"
      and "store_error P (store_ops s) call (working s) = Some msg"
  | (accepted) "commit P call s =
       (Inr (), s\<lparr>committed := working s, history := history s @ [working s],
                 store_ops := Suc (store_ops s)\<rparr>)"
      and "store_error P (store_ops s) call (working s) = None"
  by (cases "store_error P (store_ops s) call (working s)") (simp_all add: commit_def)

lemma rollback_cases:
  obtains (refused) msg where "rollback P call s = (Inl (StoreError msg), s\<lparr>store_ops := Suc (store_ops s)\<rparr>)"
      and "store_error P (store_ops s) call (working s) = Some msg"
  | (accepted) "rollback P call s =
       (Inr (), s\<lparr>working := committed s, store_ops := Suc (store_ops s)\<rparr>)"
      and "store_error P (store_ops s) call (working s) = None"
  by (cases "store_error P (store_ops s) call (working s)") (simp_all add: rollback_def)

section \<open>Properties of the Planner\<close>

lemma refine_effect:
  "\<exists>ps. snd (refine P n current s) = s\<lparr>prompts := prompts s @ ps\<rparr> \<and> length ps \<le> n"
proof (induction n arbitrary: current s)
  case 0
  then show ?case by (auto intro!: exI [of _ "[]"])
next
  case (Suc n)
  show ?case
  proof (cases "json_loads P current")
    case (Some data)
    then show ?thesis by (auto intro!: exI [of _ "[]"])
  next
    case None
    show ?thesis
    proof (cases "completion P (length (prompts s)) (fix_prompt current)")
      case (Inl msg)
      with None show ?thesis
        by (auto simp: generate_completion_def intro!: exI [of _ "[fix_prompt current]"])
    next
      case (Inr b)
      obtain current' usage where b: "b = (current', usage)" by (cases b)
      let ?s1 = "s\<lparr>prompts := prompts s @ [fix_prompt current]\<rparr>"
      from Suc [of current' ?s1] obtain ps where
        "snd (refine P n current' ?s1) = ?s1\<lparr>prompts := prompts ?s1 @ ps\<rparr>" "length ps \<le> n"
        by blast
      with None Inr b show ?thesis
        by (auto simp: generate_completion_def intro!: exI [of _ "fix_prompt current # ps"])
    qed
  qed
qed

lemma fetch_json_effect:
  "\<exists>ps. snd (fetch_json P title desc s) = s\<lparr>prompts := prompts s @ ps\<rparr>
        \<and> 1 \<le> length ps \<and> length ps \<le> 4"
proof (cases "completion P (length (prompts s)) (base_prompt P title desc)")
  case (Inl msg)
  then show ?thesis
    by (auto simp: fetch_json_def generate_completion_def
        intro!: exI [of _ "[base_prompt P title desc]"])
next
  case (Inr b)
  obtain current usage where b: "b = (current, usage)" by (cases b)
  let ?s1 = "s\<lparr>prompts := prompts s @ [base_prompt P title desc]\<rparr>"
  obtain ps where ps:
    "snd (refine P MAX_REFINES current ?s1) = ?s1\<lparr>prompts := prompts ?s1 @ ps\<rparr>" "length ps \<le> 3"
    using refine_effect [of P MAX_REFINES current ?s1] by (auto simp: MAX_REFINES_def)
  obtain r s2 where r: "refine P MAX_REFINES current ?s1 = (r, s2)" by (cases "refine P MAX_REFINES current ?s1")
  with ps have s2: "s2 = s\<lparr>prompts := prompts s @ base_prompt P title desc # ps\<rparr>" by simp
  show ?thesis
    using Inr b r s2 ps(2)
    by (auto simp: fetch_json_def generate_completion_def split: sum.splits option.splits
        intro!: exI [of _ "base_prompt P title desc # ps"])
qed

lemma fetch_json_first:
  assumes "completion P (length (prompts s)) (base_prompt P title desc) = Inr (t1, u1)"
  shows "fetch_json P title desc s =
     (case refine P MAX_REFINES t1 (s\<lparr>prompts := prompts s @ [base_prompt P title desc]\<rparr>) of
        (Inl e, s2) \<Rightarrow> (Inl e, s2)
      | (Inr current', s2) \<Rightarrow>
          (case json_loads P current' of
             None \<Rightarrow> (Inl (HTTPException 400 ''Planner failed to produce valid JSON''), s2)
           | Some data \<Rightarrow> (Inr data, s2)))"
  using assms by (simp add: fetch_json_def generate_completion_def)

lemma fetch_json_call1:
  assumes "completion P (length (prompts s)) (base_prompt P title desc) = Inr (t1, u1)"
    and "json_loads P t1 = Some data"
  shows "fetch_json P title desc s = (Inr data, s\<lparr>prompts := prompts s @ [base_prompt P title desc]\<rparr>)"
  using assms(2-)
  by (simp add: fetch_json_first [OF assms(1)] MAX_REFINES_def numeral_3_eq_3)

lemma fetch_json_call2:
  assumes "completion P (length (prompts s)) (base_prompt P title desc) = Inr (t1, u1)"
    and "json_loads P t1 = None"
    and "completion P (length (prompts s) + 1) (fix_prompt t1) = Inr (t2, u2)"
    and "json_loads P t2 = Some data"
  shows "fetch_json P title desc s =
     (Inr data, s\<lparr>prompts := prompts s @ [base_prompt P title desc, fix_prompt t1]\<rparr>)"
  using assms(2-)
  by (simp add: fetch_json_first [OF assms(1)] MAX_REFINES_def numeral_3_eq_3
      generate_completion_def)

lemma fetch_json_call3:
  assumes "completion P (length (prompts s)) (base_prompt P title desc) = Inr (t1, u1)"
    and "json_loads P t1 = None"
    and "completion P (length (prompts s) + 1) (fix_prompt t1) = Inr (t2, u2)"
    and "json_loads P t2 = None"
    and "completion P (length (prompts s) + 2) (fix_prompt t2) = Inr (t3, u3)"
    and "json_loads P t3 = Some data"
  shows "fetch_json P title desc s =
     (Inr data, s\<lparr>prompts := prompts s @ [base_prompt P title desc, fix_prompt t1, fix_prompt t2]\<rparr>)"
  using assms(2-)
  by (simp add: fetch_json_first [OF assms(1)] MAX_REFINES_def numeral_3_eq_3
      generate_completion_def)

lemma fetch_json_call4:
  assumes "completion P (length (prompts s)) (base_prompt P title desc) = Inr (t1, u1)"
    and "json_loads P t1 = None"
    and "completion P (length (prompts s) + 1) (fix_prompt t1) = Inr (t2, u2)"
    and "json_loads P t2 = None"
    and "completion P (length (prompts s) + 2) (fix_prompt t2) = Inr (t3, u3)"
    and "json_loads P t3 = None"
    and "completion P (length (prompts s) + 3) (fix_prompt t3) = Inr (t4, u4)"
  shows "fetch_json P title desc s =
     (case json_loads P t4 of
        None \<Rightarrow> Inl (HTTPException 400 ''Planner failed to produce valid JSON'')
      | Some data \<Rightarrow> Inr data,
      s\<lparr>prompts := prompts s @
          [base_prompt P title desc, fix_prompt t1, fix_prompt t2, fix_prompt t3]\<rparr>)"
  using assms(2-)
  by (simp add: fetch_json_first [OF assms(1)] MAX_REFINES_def numeral_3_eq_3
      generate_completion_def split: option.splits)

text \<open>The structural error comes from the fourth answer, and from nowhere else.\<close>

lemma fetch_json_structural:
  "fst (fetch_json P title desc s) = Inl (HTTPException 400 ''Planner failed to produce valid JSON'')
   \<longleftrightarrow>
   (\<exists>a1 u1 a2 u2 a3 u3 a4 u4.
      completion P (length (prompts s)) (base_prompt P title desc) = Inr (a1, u1)
      \<and> json_loads P a1 = None
      \<and> completion P (length (prompts s) + 1) (fix_prompt a1) = Inr (a2, u2)
      \<and> json_loads P a2 = None
      \<and> completion P (length (prompts s) + 2) (fix_prompt a2) = Inr (a3, u3)
      \<and> json_loads P a3 = None
      \<and> completion P (length (prompts s) + 3) (fix_prompt a3) = Inr (a4, u4)
      \<and> json_loads P a4 = None)"
  by (auto simp: fetch_json_def generate_completion_def MAX_REFINES_def numeral_3_eq_3
      split: sum.splits option.splits prod.splits)

lemma with_tasks_Nil: "with_tasks [] s = s"
  by (simp add: with_tasks_def)

lemma with_tasks_add:
  "with_tasks new (add_task t s) = with_tasks (t # new) s"
  by (simp add: with_tasks_def add_task_def db_add_task_def)

lemma add_tasks_effect:
  "\<exists>new. snd (add_tasks P run_id elems created s) = with_tasks new s
         \<and> (\<forall>out. fst (add_tasks P run_id elems created s) = Inr out \<longrightarrow> out = created @ new)"
proof (induction elems arbitrary: created s)
  case Nil
  show ?case by (auto simp: with_tasks_Nil intro!: exI [of _ "[]"])
next
  case (Cons e es)
  let ?t = "\<lambda>v_input n. new_task (next_id s) run_id (take 4000 (py_str P v_input)) n"
  have skip: "\<exists>new. snd (add_tasks P run_id es created s) = with_tasks new s
         \<and> (\<forall>out. fst (add_tasks P run_id es created s) = Inr out \<longrightarrow> out = created @ new)"
    by (rule Cons.IH)
  have stop: "\<exists>new. s = with_tasks new s \<and> (\<forall>out. (Inl x :: exn + task list) = Inr out \<longrightarrow> out = created @ new)" for x
    by (auto simp: with_tasks_Nil intro!: exI [of _ "[]"])
  have step: "\<exists>new. snd (add_tasks P run_id es (created @ [?t v n]) (add_task (?t v n) s)) = with_tasks new s
         \<and> (\<forall>out. fst (add_tasks P run_id es (created @ [?t v n]) (add_task (?t v n) s)) = Inr out
                \<longrightarrow> out = created @ new)" for v n
  proof -
    from Cons.IH [of "created @ [?t v n]" "add_task (?t v n) s"] obtain new where
      "snd (add_tasks P run_id es (created @ [?t v n]) (add_task (?t v n) s)) =
         with_tasks new (add_task (?t v n) s)"
      "\<forall>out. fst (add_tasks P run_id es (created @ [?t v n]) (add_task (?t v n) s)) = Inr out
                \<longrightarrow> out = (created @ [?t v n]) @ new"
      by blast
    then show ?thesis
      by (intro exI [of _ "?t v n # new"]) (simp add: with_tasks_add)
  qed
  show ?case
    using skip stop step
    by (simp add: Let_def split: sum.splits bool.splits)
qed

lemma add_tasks_error:
  "fst (add_tasks P run_id elems created s) = Inl e \<Longrightarrow> builtin_error e"
proof (induction elems arbitrary: created s)
  case Nil
  then show ?case by simp
next
  case (Cons x xs)
  from Cons.prems show ?case
    by (auto simp: Let_def py_in_def subscript_def py_int_def dest: Cons.IH
        split: sum.splits bool.splits json.splits option.splits float_int.splits)
qed

lemma planned_Nil: "planned P run_id i [] = []"
  by (simp add: planned_def List.map_filter_simps)

lemma planned_Cons:
  "planned P run_id i (e # es) =
     (case element_fields P e of
        None \<Rightarrow> planned P run_id i es
      | Some (input, order_index) \<Rightarrow> new_task i run_id input order_index # planned P run_id (Suc i) es)"
  by (simp add: planned_def List.map_filter_simps new_task_def split: option.splits)

lemma add_tasks_ok:
  "list_all (element_ok P) elems \<Longrightarrow>
   add_tasks P run_id elems created s =
     (Inr (created @ planned P run_id (next_id s) elems),
      with_tasks (planned P run_id (next_id s) elems) s)"
proof (induction elems arbitrary: created s)
  case Nil
  then show ?case by (simp add: planned_Nil with_tasks_Nil)
next
  case (Cons e es)
  from Cons.prems have ok: "element_ok P e" and rest: "list_all (element_ok P) es" by simp_all
  from ok obtain kvs where e: "e = JObj kvs"
    by (cases e) (simp_all add: element_ok_def)
  note IH = Cons.IH [OF rest]
  show ?case
  proof (cases "map_of kvs ''order_index''")
    case None
    then show ?thesis
      by (simp add: e py_in_def planned_Cons element_fields_def IH)
  next
    case vi: (Some v_index)
    show ?thesis
    proof (cases "map_of kvs ''input''")
      case None
      then show ?thesis
        by (simp add: e vi py_in_def planned_Cons element_fields_def IH)
    next
      case vin: (Some v_input)
      from ok obtain n where n: "py_int P v_index = Inr n"
        by (auto simp: e vi vin element_ok_def split: sum.splits)
      have next_add: "next_id (add_task t s) = Suc (next_id s)" for t
        by (simp add: add_task_def)
      show ?thesis
        by (simp add: e vi vin n py_in_def subscript_def planned_Cons element_fields_def IH
            next_add with_tasks_add Let_def)
    qed
  qed
qed

lemma planned_state:
  "update_run run_id (\<lambda>r. r\<lparr>r_status := ''planned''\<rparr>) (with_tasks new s) =
     s\<lparr>working := planned_db run_id new (working s), next_id := next_id s + length new\<rparr>"
  by (simp add: update_run_def db_update_run_def with_tasks_def planned_db_def)

text \<open>Task creation on an acceptable list, when the store takes the commit.\<close>

lemma create_tasks_ok:
  assumes "json_get data ''tasks'' = Inr (JArr elems)" and "elems \<noteq> []"
    and "list_all (element_ok P) elems"
    and "store_error P (store_ops s) PlanCommit
           (planned_db run_id (planned P run_id (next_id s) elems) (working s)) = None"
  shows "create_tasks P run_id data s =
     (Inr (planned P run_id (next_id s) elems),
      s\<lparr>committed := planned_db run_id (planned P run_id (next_id s) elems) (working s),
        working := planned_db run_id (planned P run_id (next_id s) elems) (working s),
        next_id := next_id s + length (planned P run_id (next_id s) elems),
        history := history s @ [planned_db run_id (planned P run_id (next_id s) elems) (working s)],
        store_ops := Suc (store_ops s)\<rparr>)"
proof -
  from assms(2) obtain x xs where x: "elems = x # xs" by (cases elems) auto
  have a: "add_tasks P run_id (x # xs) [] s =
     (Inr (planned P run_id (next_id s) elems), with_tasks (planned P run_id (next_id s) elems) s)"
    using add_tasks_ok [OF assms(3), of run_id "[]" s] by (simp add: x)
  show ?thesis
    unfolding create_tasks_def assms(1) x sum.case json.case list.case a prod.case planned_state
    using assms(4) by (simp add: commit_def x)
qed


text \<open>What \<open>create_tasks\<close> leaves behind when it raises, on every input.\<close>

lemma create_tasks_failure:
  assumes "fst (create_tasks P run_id data s) = Inl e"
  shows "committed (snd (create_tasks P run_id data s)) = committed s
       \<and> history (snd (create_tasks P run_id data s)) = history s
       \<and> prompts (snd (create_tasks P run_id data s)) = prompts s
       \<and> e \<noteq> HTTPException 400 ''Planner failed to produce valid JSON''"
proof (cases "json_get data ''tasks''")
  case (Inl x)
  with assms show ?thesis
    by (auto simp: create_tasks_def json_get_def split: json.splits)
next
  case (Inr tasks)
  show ?thesis
  proof (cases "\<exists>x xs. tasks = JArr (x # xs)")
    case False
    then have "create_tasks P run_id data s =
        (Inl (HTTPException 400 ''Planner returned invalid tasks''), s)"
      using Inr by (auto simp: create_tasks_def split: json.splits list.splits)
    with assms show ?thesis by auto
  next
    case True
    then obtain x xs where t: "tasks = JArr (x # xs)" by blast
    obtain new where new: "snd (add_tasks P run_id (x # xs) [] s) = with_tasks new s"
      using add_tasks_effect [of P run_id "x # xs" "[]" s] by blast
    obtain r s' where r: "add_tasks P run_id (x # xs) [] s = (r, s')"
      by (cases "add_tasks P run_id (x # xs) [] s")
    with new have s': "s' = with_tasks new s" by simp
    show ?thesis
    proof (cases r)
      case (Inl x1)
      with r have "builtin_error x1"
        using add_tasks_error [of P run_id "x # xs" "[]" s x1] by simp
      moreover from Inl r assms Inr t have "e = x1" and "snd (create_tasks P run_id data s) = s'"
        by (simp_all add: create_tasks_def)
      ultimately show ?thesis
        using s' by (auto simp: with_tasks_def)
    next
      case (Inr created)
      let ?s2 = "update_run run_id (\<lambda>r. r\<lparr>r_status := ''planned''\<rparr>) s'"
      have c: "create_tasks P run_id data s =
          (case commit P PlanCommit ?s2 of (Inl e, s'') \<Rightarrow> (Inl e, s'') | (Inr u, s'') \<Rightarrow> (Inr created, s''))"
        using \<open>json_get data ''tasks'' = Inr tasks\<close> t r Inr by (simp add: create_tasks_def)
      show ?thesis
      proof (cases P PlanCommit ?s2 rule: commit_cases)
        case (refused msg)
        with c assms show ?thesis
          by (auto simp: s' update_run_def with_tasks_def)
      next
        case accepted
        with c assms show ?thesis by simp
      qed
    qed
  qed
qed

text \<open>What \<open>create_tasks\<close> leaves behind when it returns, on every input.\<close>

lemma create_tasks_success:
  assumes "fst (create_tasks P run_id data s) = Inr created"
  shows "snd (create_tasks P run_id data s) =
      s\<lparr>committed := planned_db run_id created (working s),
        working := planned_db run_id created (working s),
        next_id := next_id s + length created,
        history := history s @ [planned_db run_id created (working s)],
        store_ops := Suc (store_ops s)\<rparr>"
proof -
  from assms obtain tasks where g: "json_get data ''tasks'' = Inr tasks"
    by (cases "json_get data ''tasks''") (simp_all add: create_tasks_def)
  from assms g obtain x xs where t: "tasks = JArr (x # xs)"
    by (auto simp: create_tasks_def split: json.splits list.splits)
  obtain new where new:
      "snd (add_tasks P run_id (x # xs) [] s) = with_tasks new s"
      "\<forall>out. fst (add_tasks P run_id (x # xs) [] s) = Inr out \<longrightarrow> out = [] @ new"
    using add_tasks_effect [of P run_id "x # xs" "[]" s] by blast
  obtain r s' where r: "add_tasks P run_id (x # xs) [] s = (r, s')"
    by (cases "add_tasks P run_id (x # xs) [] s")
  with new have s': "s' = with_tasks new s" and out: "\<forall>out. r = Inr out \<longrightarrow> out = new" by simp_all
  from assms g t r obtain out where rr: "r = Inr out"
    by (cases r) (simp_all add: create_tasks_def)
  with out have o: "out = new" by simp
  let ?s2 = "update_run run_id (\<lambda>r. r\<lparr>r_status := ''planned''\<rparr>) (with_tasks new s)"
  have c: "create_tasks P run_id data s =
      (case commit P PlanCommit ?s2 of (Inl e, s'') \<Rightarrow> (Inl e, s'') | (Inr u, s'') \<Rightarrow> (Inr new, s''))"
    using g t r rr o s' by (simp add: create_tasks_def)
  show ?thesis
  proof (cases P PlanCommit ?s2 rule: commit_cases)
    case (refused msg)
    with c assms show ?thesis by simp
  next
    case accepted
    with c assms have "created = new" by simp
    with c accepted show ?thesis
      by (simp add: planned_state)
  qed
qed

lemma plan_fetch:
  "fetch_json P title desc s = (Inr data, s1) \<Longrightarrow>
   plan P run_id title desc s = create_tasks P run_id data s1"
  by (simp add: plan_def)

lemma plan_structural:
  "fst (plan P run_id title desc s) = Inl (HTTPException 400 ''Planner failed to produce valid JSON'')
   \<longleftrightarrow>
   fst (fetch_json P title desc s) = Inl (HTTPException 400 ''Planner failed to produce valid JSON'')"
proof -
  obtain r s1 where f: "fetch_json P title desc s = (r, s1)"
    by (cases "fetch_json P title desc s")
  show ?thesis
  proof (cases r)
    case (Inl e)
    with f show ?thesis by (simp add: plan_def)
  next
    case (Inr data)
    with f have "plan P run_id title desc s = create_tasks P run_id data s1"
      by (simp add: plan_def)
    with f Inr show ?thesis
      using create_tasks_failure [of P run_id data s1] by auto
  qed
qed


lemma plan_prompts:
  "\<exists>ps. prompts (snd (plan P run_id title desc s)) = prompts s @ ps
        \<and> 1 \<le> length ps \<and> length ps \<le> 4"
proof -
  obtain ps where ps: "snd (fetch_json P title desc s) = s\<lparr>prompts := prompts s @ ps\<rparr>"
      "1 \<le> length ps" "length ps \<le> 4"
    using fetch_json_effect by blast
  obtain r s1 where f: "fetch_json P title desc s = (r, s1)"
    by (cases "fetch_json P title desc s")
  with ps have s1: "s1 = s\<lparr>prompts := prompts s @ ps\<rparr>" by simp
  have "prompts (snd (plan P run_id title desc s)) = prompts s @ ps"
  proof (cases r)
    case (Inl x)
    with f s1 show ?thesis by (simp add: plan_def)
  next
    case (Inr data)
    with f have p: "plan P run_id title desc s = create_tasks P run_id data s1"
      by (simp add: plan_def)
    show ?thesis
    proof (cases "fst (create_tasks P run_id data s1)")
      case (Inl e)
      then show ?thesis
        using create_tasks_failure [of P run_id data s1 e] by (simp add: p s1)
    next
      case (Inr created)
      then show ?thesis
        using create_tasks_success [of P run_id data s1 created] by (simp add: p s1)
    qed
  qed
  with ps(2,3) show ?thesis by blast
qed

text \<open>The answer the Planner settles on: the first of its first four that parses.\<close>

lemma fetch_json_answers:
  assumes k: "k < 4" and len: "length as = Suc k"
    and calls: "\<forall>i\<le>k. \<exists>u. completion P (length (prompts s) + i)
                   ((base_prompt P title desc # map fix_prompt as) ! i) = Inr (as ! i, u)"
    and bad: "\<forall>i<k. json_loads P (as ! i) = None"
    and good: "json_loads P (as ! k) = Some data"
  shows "fetch_json P title desc s =
     (Inr data, s\<lparr>prompts := prompts s @ base_prompt P title desc # map fix_prompt (butlast as)\<rparr>)"
proof -
  from k consider "k = 0" | "k = 1" | "k = 2" | "k = 3" by linarith
  then show ?thesis
  proof cases
    case 1
    with len obtain a1 where as: "as = [a1]"
      by (cases as) auto
    from calls obtain u1 where
      "completion P (length (prompts s)) (base_prompt P title desc) = Inr (a1, u1)"
      unfolding 1 as by auto
    then show ?thesis
      using good fetch_json_call1 [of P s title desc a1 u1 data] by (simp add: 1 as)
  next
    case 2
    with len obtain a1 a2 where as: "as = [a1, a2]"
      by (cases as; cases "tl as") auto
    from calls have "\<exists>u. completion P (length (prompts s) + 0)
        ((base_prompt P title desc # map fix_prompt as) ! 0) = Inr (as ! 0, u)"
      by blast
    then obtain u1 where c1:
      "completion P (length (prompts s)) (base_prompt P title desc) = Inr (a1, u1)"
      by (auto simp: as)
    from calls have "\<exists>u. completion P (length (prompts s) + 1)
        ((base_prompt P title desc # map fix_prompt as) ! 1) = Inr (as ! 1, u)"
      unfolding 2 by blast
    then obtain u2 where c2:
      "completion P (length (prompts s) + 1) (fix_prompt a1) = Inr (a2, u2)"
      by (auto simp: as)
    from bad have b1: "json_loads P a1 = None"
      unfolding 2 as by auto
    from good have g: "json_loads P a2 = Some data"
      by (simp add: 2 as)
    show ?thesis
      using fetch_json_call2 [OF c1 b1 c2 g] by (simp add: as)
  next
    case 3
    with len obtain a1 a2 a3 where as: "as = [a1, a2, a3]"
      by (cases as; cases "tl as"; cases "tl (tl as)") auto
    from calls have "\<exists>u. completion P (length (prompts s) + 0)
        ((base_prompt P title desc # map fix_prompt as) ! 0) = Inr (as ! 0, u)"
      by blast
    then obtain u1 where c1:
      "completion P (length (prompts s)) (base_prompt P title desc) = Inr (a1, u1)"
      by (auto simp: as)
    from calls have "\<exists>u. completion P (length (prompts s) + 1)
        ((base_prompt P title desc # map fix_prompt as) ! 1) = Inr (as ! 1, u)"
      unfolding 3 by (metis one_le_numeral)
    then obtain u2 where c2:
      "completion P (length (prompts s) + 1) (fix_prompt a1) = Inr (a2, u2)"
      by (auto simp: as)
    from calls have "\<exists>u. completion P (length (prompts s) + 2)
        ((base_prompt P title desc # map fix_prompt as) ! 2) = Inr (as ! 2, u)"
      unfolding 3 by blast
    then obtain u3 where c3:
      "completion P (length (prompts s) + 2) (fix_prompt a2) = Inr (a3, u3)"
      by (auto simp: as)
    from bad have "json_loads P (as ! 0) = None" "json_loads P (as ! 1) = None"
      unfolding 3 by auto
    then have b1: "json_loads P a1 = None" and b2: "json_loads P a2 = None"
      by (simp_all add: as)
    from good have g: "json_loads P a3 = Some data"
      by (simp add: 3 as)
    show ?thesis
      using fetch_json_call3 [OF c1 b1 c2 b2 c3 g] by (simp add: as)
  next
    case 4
    with len obtain a1 a2 a3 a4 where as: "as = [a1, a2, a3, a4]"
      by (cases as; cases "tl as"; cases "tl (tl as)"; cases "tl (tl (tl as))") auto
    from calls have "\<exists>u. completion P (length (prompts s) + 0)
        ((base_prompt P title desc # map fix_prompt as) ! 0) = Inr (as ! 0, u)"
      by blast
    then obtain u1 where c1:
      "completion P (length (prompts s)) (base_prompt P title desc) = Inr (a1, u1)"
      by (auto simp: as)
    have "(1::nat) \<le> 3" "(2::nat) \<le> 3" by simp_all
    with calls have "\<exists>u. completion P (length (prompts s) + 1)
        ((base_prompt P title desc # map fix_prompt as) ! 1) = Inr (as ! 1, u)"
      and "\<exists>u. completion P (length (prompts s) + 2)
        ((base_prompt P title desc # map fix_prompt as) ! 2) = Inr (as ! 2, u)"
      unfolding 4 by blast+
    then obtain u2 u3 where c2:
      "completion P (length (prompts s) + 1) (fix_prompt a1) = Inr (a2, u2)"
      and c3: "completion P (length (prompts s) + 2) (fix_prompt a2) = Inr (a3, u3)"
      by (auto simp: as)
    from calls have "\<exists>u. completion P (length (prompts s) + 3)
        ((base_prompt P title desc # map fix_prompt as) ! 3) = Inr (as ! 3, u)"
      unfolding 4 by blast
    then obtain u4 where c4:
      "completion P (length (prompts s) + 3) (fix_prompt a3) = Inr (a4, u4)"
      by (auto simp: as numeral_3_eq_3)
    have "(0::nat) < 3" "(1::nat) < 3" "(2::nat) < 3" by simp_all
    with bad have "json_loads P (as ! 0) = None" "json_loads P (as ! 1) = None"
      "json_loads P (as ! 2) = None"
      unfolding 4 by blast+
    then have b1: "json_loads P a1 = None" and b2: "json_loads P a2 = None"
      and b3: "json_loads P a3 = None"
      by (simp_all add: as)
    from good have g: "json_loads P a4 = Some data"
      by (simp add: 4 as numeral_3_eq_3)
    show ?thesis
      using fetch_json_call4 [OF c1 b1 c2 b2 c3 b3 c4] g by (simp add: as)
  qed
qed

text \<open>
  C3, as the code has it. After the first call the Planner asks for at most three
  corrections, so it makes at least one and at most four completion calls, and it
  settles on the first answer that parses, the fourth included. \<open>plan\<close> fails with the
  structural error (HTTP 400, \<open>Planner failed to produce valid JSON\<close>) exactly when all
  four calls returned and all four answers are malformed; then four prompts were sent
  and nothing else in the session or the store has changed: no Task, and the Run's
  status as it was. When the answer \<open>k + 1\<close> (\<open>k < 4\<close>) is the first that parses, after
  \<open>k\<close> malformed ones, \<open>plan\<close> goes on to create the tasks from it, having sent \<open>k + 1\<close>
  prompts; if its \<open>tasks\<close> is a non-empty list of acceptable elements and the store
  takes the commit, \<open>plan\<close> succeeds: it returns the Tasks, and the Tasks and the status
  \<open>planned\<close> are committed.
\<close>

theorem planner_retry_bound:
  "(fst (plan P run_id title desc s) =
       Inl (HTTPException 400 ''Planner failed to produce valid JSON'')
     \<longleftrightarrow>
     (\<exists>a1 u1 a2 u2 a3 u3 a4 u4.
        completion P (length (prompts s)) (base_prompt P title desc) = Inr (a1, u1)
        \<and> json_loads P a1 = None
        \<and> completion P (length (prompts s) + 1) (fix_prompt a1) = Inr (a2, u2)
        \<and> json_loads P a2 = None
        \<and> completion P (length (prompts s) + 2) (fix_prompt a2) = Inr (a3, u3)
        \<and> json_loads P a3 = None
        \<and> completion P (length (prompts s) + 3) (fix_prompt a3) = Inr (a4, u4)
        \<and> json_loads P a4 = None))
   \<and> (fst (plan P run_id title desc s) =
         Inl (HTTPException 400 ''Planner failed to produce valid JSON'')
       \<longrightarrow> (\<exists>ps. length ps = 4 \<and> snd (plan P run_id title desc s) = s\<lparr>prompts := prompts s @ ps\<rparr>))
   \<and> (\<exists>ps. prompts (snd (plan P run_id title desc s)) = prompts s @ ps
            \<and> 1 \<le> length ps \<and> length ps \<le> 4)
   \<and> (k < 4 \<and> length as = Suc k
       \<and> (\<forall>i\<le>k. \<exists>u. completion P (length (prompts s) + i)
                        ((base_prompt P title desc # map fix_prompt as) ! i) = Inr (as ! i, u))
       \<and> (\<forall>i<k. json_loads P (as ! i) = None)
       \<and> json_loads P (as ! k) = Some data
       \<longrightarrow>
       plan P run_id title desc s =
         create_tasks P run_id data
           (s\<lparr>prompts := prompts s @ base_prompt P title desc # map fix_prompt (butlast as)\<rparr>)
       \<and> (json_get data ''tasks'' = Inr (JArr elems) \<and> elems \<noteq> []
           \<and> list_all (element_ok P) elems
           \<and> store_error P (store_ops s) PlanCommit
                (planned_db run_id (planned P run_id (next_id s) elems) (working s)) = None
           \<longrightarrow>
           plan P run_id title desc s =
             (Inr (planned P run_id (next_id s) elems),
              s\<lparr>committed := planned_db run_id (planned P run_id (next_id s) elems) (working s),
                working := planned_db run_id (planned P run_id (next_id s) elems) (working s),
                next_id := next_id s + length (planned P run_id (next_id s) elems),
                history := history s @
                  [planned_db run_id (planned P run_id (next_id s) elems) (working s)],
                prompts := prompts s @ base_prompt P title desc # map fix_prompt (butlast as),
                store_ops := Suc (store_ops s)\<rparr>)))"
proof (intro conjI impI)
  show "fst (plan P run_id title desc s) =
       Inl (HTTPException 400 ''Planner failed to produce valid JSON'')
     \<longleftrightarrow>
     (\<exists>a1 u1 a2 u2 a3 u3 a4 u4.
        completion P (length (prompts s)) (base_prompt P title desc) = Inr (a1, u1)
        \<and> json_loads P a1 = None
        \<and> completion P (length (prompts s) + 1) (fix_prompt a1) = Inr (a2, u2)
        \<and> json_loads P a2 = None
        \<and> completion P (length (prompts s) + 2) (fix_prompt a2) = Inr (a3, u3)
        \<and> json_loads P a3 = None
        \<and> completion P (length (prompts s) + 3) (fix_prompt a3) = Inr (a4, u4)
        \<and> json_loads P a4 = None)"
    unfolding plan_structural by (rule fetch_json_structural)
next
  assume "fst (plan P run_id title desc s) =
         Inl (HTTPException 400 ''Planner failed to produce valid JSON'')"
  then have f: "fst (fetch_json P title desc s) =
         Inl (HTTPException 400 ''Planner failed to produce valid JSON'')"
    by (simp add: plan_structural)
  then obtain a1 u1 a2 u2 a3 u3 a4 u4 where a:
        "completion P (length (prompts s)) (base_prompt P title desc) = Inr (a1, u1)"
        "json_loads P a1 = None"
        "completion P (length (prompts s) + 1) (fix_prompt a1) = Inr (a2, u2)"
        "json_loads P a2 = None"
        "completion P (length (prompts s) + 2) (fix_prompt a2) = Inr (a3, u3)"
        "json_loads P a3 = None"
        "completion P (length (prompts s) + 3) (fix_prompt a3) = Inr (a4, u4)"
        "json_loads P a4 = None"
    unfolding fetch_json_structural by blast
  have "plan P run_id title desc s =
      (Inl (HTTPException 400 ''Planner failed to produce valid JSON''),
       s\<lparr>prompts := prompts s @
          [base_prompt P title desc, fix_prompt a1, fix_prompt a2, fix_prompt a3]\<rparr>)"
    using fetch_json_call4 [OF a(1-7)] a(8) by (simp add: plan_def)
  then show "\<exists>ps. length ps = 4 \<and> snd (plan P run_id title desc s) = s\<lparr>prompts := prompts s @ ps\<rparr>"
    by (intro exI [of _ "[base_prompt P title desc, fix_prompt a1, fix_prompt a2, fix_prompt a3]"])
       simp
next
  show "\<exists>ps. prompts (snd (plan P run_id title desc s)) = prompts s @ ps
            \<and> 1 \<le> length ps \<and> length ps \<le> 4"
    by (rule plan_prompts)
next
  assume h: "k < 4 \<and> length as = Suc k
       \<and> (\<forall>i\<le>k. \<exists>u. completion P (length (prompts s) + i)
                        ((base_prompt P title desc # map fix_prompt as) ! i) = Inr (as ! i, u))
       \<and> (\<forall>i<k. json_loads P (as ! i) = None)
       \<and> json_loads P (as ! k) = Some data"
  then have f: "fetch_json P title desc s =
     (Inr data, s\<lparr>prompts := prompts s @ base_prompt P title desc # map fix_prompt (butlast as)\<rparr>)"
    using fetch_json_answers [of k as P s title desc data] by blast
  then show p: "plan P run_id title desc s =
         create_tasks P run_id data
           (s\<lparr>prompts := prompts s @ base_prompt P title desc # map fix_prompt (butlast as)\<rparr>)"
    by (rule plan_fetch)
  assume w: "json_get data ''tasks'' = Inr (JArr elems) \<and> elems \<noteq> []
           \<and> list_all (element_ok P) elems
           \<and> store_error P (store_ops s) PlanCommit
                (planned_db run_id (planned P run_id (next_id s) elems) (working s)) = None"
  let ?s1 = "s\<lparr>prompts := prompts s @ base_prompt P title desc # map fix_prompt (butlast as)\<rparr>"
  from w have acc: "store_error P (store_ops ?s1) PlanCommit
                (planned_db run_id (planned P run_id (next_id ?s1) elems) (working ?s1)) = None"
    by simp
  from w have g: "json_get data ''tasks'' = Inr (JArr elems)" and ne: "elems \<noteq> []"
    and ok: "list_all (element_ok P) elems"
    by simp_all
  show "plan P run_id title desc s =
             (Inr (planned P run_id (next_id s) elems),
              s\<lparr>committed := planned_db run_id (planned P run_id (next_id s) elems) (working s),
                working := planned_db run_id (planned P run_id (next_id s) elems) (working s),
                next_id := next_id s + length (planned P run_id (next_id s) elems),
                history := history s @
                  [planned_db run_id (planned P run_id (next_id s) elems) (working s)],
                prompts := prompts s @ base_prompt P title desc # map fix_prompt (butlast as),
                store_ops := Suc (store_ops s)\<rparr>)"
    unfolding p create_tasks_ok [OF g ne ok acc] by simp
qed

lemma ex_loads_simps:
  "ex_loads ''not json'' = None"
  "ex_loads ex_plan_text = Some ex_plan_json"
  "ex_loads ex_bad_text = Some ex_bad_json"
  "ex_loads ex_twin_text = Some ex_twin_json"
  "ex_loads ex_big_text = Some ex_big_json"
  by (simp_all add: ex_loads_def ex_plan_text_def ex_bad_text_def ex_twin_text_def
      ex_big_text_def)

lemma ex_plan_ports_simps:
  "completion (ex_plan_ports k good) n p = (if n < k then Inr (''not json'', []) else Inr (good, []))"
  "json_loads (ex_plan_ports k good) = ex_loads"
  "sanitize (ex_plan_ports k good) = ex_sanitize"
  "int_of_str (ex_plan_ports k good) = (\<lambda>x. None)"
  "store_error (ex_plan_ports k good) = (\<lambda>n c d. None)"
  by (simp_all add: ex_plan_ports_def)

lemma ex_plan_state_simps:
  "prompts ex_plan_state = []"
  "next_id ex_plan_state = 20"
  "working ex_plan_state = ex_plan_db"
  "committed ex_plan_state = ex_plan_db"
  "history ex_plan_state = []"
  "store_ops ex_plan_state = 0"
  by (simp_all add: ex_plan_state_def)

lemma ex_plan_get:
  "json_get ex_plan_json ''tasks'' =
     Inr (JArr [JObj [(''order_index'', JInt 1), (''input'', JStr ''first'')],
                JObj [(''input'', JStr ''orphan'')],
                JObj [(''order_index'', JInt 2), (''input'', JStr ''second'')]])"
  by (simp add: json_get_def ex_plan_json_def)

lemma ex_plan_ok:
  "list_all (element_ok (ex_plan_ports k good))
     [JObj [(''order_index'', JInt 1), (''input'', JStr ''first'')],
      JObj [(''input'', JStr ''orphan'')],
      JObj [(''order_index'', JInt 2), (''input'', JStr ''second'')]]"
  by (simp add: element_ok_def py_int_def)

lemma ex_planned:
  "planned (ex_plan_ports k good) 5 20
     [JObj [(''order_index'', JInt 1), (''input'', JStr ''first'')],
      JObj [(''input'', JStr ''orphan'')],
      JObj [(''order_index'', JInt 2), (''input'', JStr ''second'')]] =
   [\<lparr>t_id = 20, t_run_id = 5, t_agent_type = ''executor'', t_status = ''pending'',
     t_input = Some ''first'', t_output = None, t_order_index = 1\<rparr>,
    \<lparr>t_id = 21, t_run_id = 5, t_agent_type = ''executor'', t_status = ''pending'',
     t_input = Some ''second'', t_output = None, t_order_index = 2\<rparr>]"
  by (simp add: planned_def List.map_filter_simps element_fields_def py_int_def py_str_def)

lemma ex_planned_db:
  "planned_db 5
     [\<lparr>t_id = 20, t_run_id = 5, t_agent_type = ''executor'', t_status = ''pending'',
       t_input = Some ''first'', t_output = None, t_order_index = 1\<rparr>,
      \<lparr>t_id = 21, t_run_id = 5, t_agent_type = ''executor'', t_status = ''pending'',
       t_input = Some ''second'', t_output = None, t_order_index = 2\<rparr>] ex_plan_db = ex_planned_db"
  by (simp add: planned_db_def ex_plan_db_def ex_planned_db_def)

theorem planner_retry_bound_witness:
  "json_loads (ex_plan_ports 2 ex_plan_text) ''not json'' = None
   \<and> json_loads (ex_plan_ports 2 ex_plan_text) ex_plan_text = Some ex_plan_json
   \<and> plan (ex_plan_ports 2 ex_plan_text) 5 ''Demo'' None ex_plan_state =
       (Inr [\<lparr>t_id = 20, t_run_id = 5, t_agent_type = ''executor'', t_status = ''pending'',
              t_input = Some ''first'', t_output = None, t_order_index = 1\<rparr>,
             \<lparr>t_id = 21, t_run_id = 5, t_agent_type = ''executor'', t_status = ''pending'',
              t_input = Some ''second'', t_output = None, t_order_index = 2\<rparr>],
        \<lparr>committed = ex_planned_db, working = ex_planned_db, next_id = 22,
         history = [ex_planned_db],
         prompts = [base_prompt (ex_plan_ports 2 ex_plan_text) ''Demo'' None,
                    fix_prompt ''not json'', fix_prompt ''not json''],
         store_ops = 1\<rparr>)
   \<and> fst (plan (ex_plan_ports 4 ex_plan_text) 5 ''Demo'' None ex_plan_state) =
       Inl (HTTPException 400 ''Planner failed to produce valid JSON'')
   \<and> (\<exists>ps. length ps = 4 \<and>
        snd (plan (ex_plan_ports 4 ex_plan_text) 5 ''Demo'' None ex_plan_state) =
          ex_plan_state\<lparr>prompts := ps\<rparr>)"
proof -
  let ?P = "ex_plan_ports 2 ex_plan_text"
  let ?elems = "[JObj [(''order_index'', JInt 1), (''input'', JStr ''first'')],
                 JObj [(''input'', JStr ''orphan'')],
                 JObj [(''order_index'', JInt 2), (''input'', JStr ''second'')]]"
  have calls: "\<forall>i\<le>2. \<exists>u. completion ?P (length (prompts ex_plan_state) + i)
      ((base_prompt ?P ''Demo'' None # map fix_prompt [''not json'', ''not json'', ex_plan_text]) ! i) =
      Inr ([''not json'', ''not json'', ex_plan_text] ! i, u)"
    by (auto simp: ex_plan_ports_simps ex_plan_state_simps le_Suc_eq numeral_2_eq_2)
  have bad: "\<forall>i<2. json_loads ?P ([''not json'', ''not json'', ex_plan_text] ! i) = None"
    by (auto simp: ex_plan_ports_simps ex_loads_simps less_Suc_eq numeral_2_eq_2)
  have good: "json_loads ?P ([''not json'', ''not json'', ex_plan_text] ! 2) = Some ex_plan_json"
    by (simp add: ex_plan_ports_simps ex_loads_simps)
  have acc: "store_error ?P (store_ops ex_plan_state) PlanCommit
      (planned_db 5 (planned ?P 5 (next_id ex_plan_state) ?elems) (working ex_plan_state)) = None"
    by (simp add: ex_plan_ports_simps)
  have k: "(2::nat) < 4" and l: "length [''not json'', ''not json'', ex_plan_text] = Suc 2"
    and ne: "?elems \<noteq> []"
    by simp_all
  note imp = planner_retry_bound
      [where P = ?P and run_id = 5 and title = "''Demo''" and desc = None and s = ex_plan_state
         and k = 2 and as = "[''not json'', ''not json'', ex_plan_text]" and data = ex_plan_json
         and elems = ?elems, THEN conjunct2, THEN conjunct2, THEN conjunct2]
  from imp k l calls bad good ex_plan_get ne ex_plan_ok [of 2 ex_plan_text] acc
  have "plan ?P 5 ''Demo'' None ex_plan_state =
             (Inr (planned ?P 5 (next_id ex_plan_state) ?elems),
              ex_plan_state\<lparr>committed := planned_db 5 (planned ?P 5 (next_id ex_plan_state) ?elems)
                                (working ex_plan_state),
                working := planned_db 5 (planned ?P 5 (next_id ex_plan_state) ?elems)
                                (working ex_plan_state),
                next_id := next_id ex_plan_state + length (planned ?P 5 (next_id ex_plan_state) ?elems),
                history := history ex_plan_state @
                  [planned_db 5 (planned ?P 5 (next_id ex_plan_state) ?elems) (working ex_plan_state)],
                prompts := prompts ex_plan_state @ base_prompt ?P ''Demo'' None #
                   map fix_prompt (butlast [''not json'', ''not json'', ex_plan_text]),
                store_ops := Suc (store_ops ex_plan_state)\<rparr>)"
    by blast
  then have a: "plan ?P 5 ''Demo'' None ex_plan_state =
       (Inr [\<lparr>t_id = 20, t_run_id = 5, t_agent_type = ''executor'', t_status = ''pending'',
              t_input = Some ''first'', t_output = None, t_order_index = 1\<rparr>,
             \<lparr>t_id = 21, t_run_id = 5, t_agent_type = ''executor'', t_status = ''pending'',
              t_input = Some ''second'', t_output = None, t_order_index = 2\<rparr>],
        \<lparr>committed = ex_planned_db, working = ex_planned_db, next_id = 22,
         history = [ex_planned_db],
         prompts = [base_prompt ?P ''Demo'' None, fix_prompt ''not json'', fix_prompt ''not json''],
         store_ops = 1\<rparr>)"
    unfolding ex_plan_state_simps ex_planned ex_planned_db
    by (simp add: ex_plan_state_def)
  let ?Q = "ex_plan_ports 4 ex_plan_text"
  have four: "\<exists>a1 u1 a2 u2 a3 u3 a4 u4.
        completion ?Q (length (prompts ex_plan_state)) (base_prompt ?Q ''Demo'' None) = Inr (a1, u1)
        \<and> json_loads ?Q a1 = None
        \<and> completion ?Q (length (prompts ex_plan_state) + 1) (fix_prompt a1) = Inr (a2, u2)
        \<and> json_loads ?Q a2 = None
        \<and> completion ?Q (length (prompts ex_plan_state) + 2) (fix_prompt a2) = Inr (a3, u3)
        \<and> json_loads ?Q a3 = None
        \<and> completion ?Q (length (prompts ex_plan_state) + 3) (fix_prompt a3) = Inr (a4, u4)
        \<and> json_loads ?Q a4 = None"
    by (simp add: ex_plan_ports_simps ex_plan_state_simps ex_loads_simps)
  note inst = planner_retry_bound
      [where P = ?Q and run_id = 5 and title = "''Demo''" and desc = None and s = ex_plan_state]
  from inst four have b: "fst (plan ?Q 5 ''Demo'' None ex_plan_state) =
       Inl (HTTPException 400 ''Planner failed to produce valid JSON'')"
    by blast
  with inst have c: "\<exists>ps. length ps = 4 \<and>
        snd (plan ?Q 5 ''Demo'' None ex_plan_state) =
          ex_plan_state\<lparr>prompts := prompts ex_plan_state @ ps\<rparr>"
    by blast
  have d: "json_loads ?P ''not json'' = None" "json_loads ?P ex_plan_text = Some ex_plan_json"
    by (simp_all add: ex_plan_ports_simps ex_loads_simps)
  from a b c d show ?thesis
    by (simp add: ex_plan_state_simps)
qed

text \<open>
  C3 as stated fails: with malformed JSON on calls 1 to 3 and valid JSON on call 4,
  \<open>plan\<close> does not fail. It creates the Tasks and advances the Run to \<open>planned\<close>.
\<close>

theorem planner_fourth_answer_counterexample:
  "completion (ex_plan_ports 3 ex_plan_text) 0 (base_prompt (ex_plan_ports 3 ex_plan_text) ''Demo'' None) =
     Inr (''not json'', [])
   \<and> completion (ex_plan_ports 3 ex_plan_text) 1 (fix_prompt ''not json'') = Inr (''not json'', [])
   \<and> completion (ex_plan_ports 3 ex_plan_text) 2 (fix_prompt ''not json'') = Inr (''not json'', [])
   \<and> completion (ex_plan_ports 3 ex_plan_text) 3 (fix_prompt ''not json'') = Inr (ex_plan_text, [])
   \<and> json_loads (ex_plan_ports 3 ex_plan_text) ''not json'' = None
   \<and> json_loads (ex_plan_ports 3 ex_plan_text) ex_plan_text = Some ex_plan_json
   \<and> prompts (snd (plan (ex_plan_ports 3 ex_plan_text) 5 ''Demo'' None ex_plan_state)) =
       [base_prompt (ex_plan_ports 3 ex_plan_text) ''Demo'' None,
        fix_prompt ''not json'', fix_prompt ''not json'', fix_prompt ''not json'']
   \<and> fst (plan (ex_plan_ports 3 ex_plan_text) 5 ''Demo'' None ex_plan_state) =
       Inr [\<lparr>t_id = 20, t_run_id = 5, t_agent_type = ''executor'', t_status = ''pending'',
              t_input = Some ''first'', t_output = None, t_order_index = 1\<rparr>,
             \<lparr>t_id = 21, t_run_id = 5, t_agent_type = ''executor'', t_status = ''pending'',
              t_input = Some ''second'', t_output = None, t_order_index = 2\<rparr>]
   \<and> db_tasks (committed (snd (plan (ex_plan_ports 3 ex_plan_text) 5 ''Demo'' None ex_plan_state))) =
       [\<lparr>t_id = 20, t_run_id = 5, t_agent_type = ''executor'', t_status = ''pending'',
              t_input = Some ''first'', t_output = None, t_order_index = 1\<rparr>,
             \<lparr>t_id = 21, t_run_id = 5, t_agent_type = ''executor'', t_status = ''pending'',
              t_input = Some ''second'', t_output = None, t_order_index = 2\<rparr>]
   \<and> map r_status (db_runs (committed (snd (plan (ex_plan_ports 3 ex_plan_text) 5 ''Demo'' None
          ex_plan_state)))) = [''planned'']"
proof -
  let ?P = "ex_plan_ports 3 ex_plan_text"
  let ?elems = "[JObj [(''order_index'', JInt 1), (''input'', JStr ''first'')],
                 JObj [(''input'', JStr ''orphan'')],
                 JObj [(''order_index'', JInt 2), (''input'', JStr ''second'')]]"
  let ?s1 = "ex_plan_state\<lparr>prompts := prompts ex_plan_state @
           [base_prompt ?P ''Demo'' None,
            fix_prompt ''not json'', fix_prompt ''not json'', fix_prompt ''not json'']\<rparr>"
  have f: "fetch_json ?P ''Demo'' None ex_plan_state = (Inr ex_plan_json, ?s1)"
    using fetch_json_call4
      [of ?P ex_plan_state "''Demo''" None "''not json''" "[]"
          "''not json''" "[]" "''not json''" "[]" ex_plan_text "[]"]
    by (simp add: ex_plan_ports_simps ex_loads_simps ex_plan_state_simps)
  have acc: "store_error ?P (store_ops ?s1) PlanCommit
      (planned_db 5 (planned ?P 5 (next_id ?s1) ?elems) (working ?s1)) = None"
    by (simp add: ex_plan_ports_simps)
  have n: "next_id ?s1 = 20" "working ?s1 = ex_plan_db"
    by (simp_all add: ex_plan_state_simps)
  have "plan ?P 5 ''Demo'' None ex_plan_state =
      (Inr [\<lparr>t_id = 20, t_run_id = 5, t_agent_type = ''executor'', t_status = ''pending'',
              t_input = Some ''first'', t_output = None, t_order_index = 1\<rparr>,
             \<lparr>t_id = 21, t_run_id = 5, t_agent_type = ''executor'', t_status = ''pending'',
              t_input = Some ''second'', t_output = None, t_order_index = 2\<rparr>],
        \<lparr>committed = ex_planned_db, working = ex_planned_db, next_id = 22,
         history = [ex_planned_db],
         prompts = [base_prompt ?P ''Demo'' None,
                    fix_prompt ''not json'', fix_prompt ''not json'', fix_prompt ''not json''],
         store_ops = 1\<rparr>)"
    unfolding plan_fetch [OF f] create_tasks_ok [OF ex_plan_get _ ex_plan_ok acc, simplified]
    by (simp add: ex_plan_state_simps ex_planned ex_planned_db)
  then show ?thesis
    by (simp add: ex_plan_ports_simps ex_loads_simps ex_planned_db_def)
qed










end
